theory Spec2Isabelle
  imports Complex_Main
begin

section \<open>Numbers\<close>

text \<open>
  A number of the engine is an IEEE 754 double: a finite value, one of the two
  infinities, or \<open>NaN\<close>. The finite values are the reals \<open>m * 2^e\<close> with \<open>|m| < 2^53\<close> and
  \<open>-1074 \<le> e \<le> 971\<close>. The two zeros are one value here: the code tells them apart
  nowhere (\<open>-0 === 0\<close> holds, both are false in a condition, and \<open>JSON.stringify\<close> writes
  \<open>0\<close> for both), and the code never divides by a zero.
\<close>

datatype number = Finite real | PosInf | NegInf | NaN

text \<open>The number of binary digits of a natural number.\<close>

fun bit_length :: "nat \<Rightarrow> nat" where
  "bit_length n = (if n = 0 then 0 else Suc (bit_length (n div 2)))"

declare bit_length.simps [simp del]

definition pow2 :: "int \<Rightarrow> real" where
  "pow2 e = (if 0 \<le> e then 2 ^ nat e else 1 / 2 ^ nat (- e))"

text \<open>For \<open>x > 0\<close>, the exponent \<open>k\<close> with \<open>2^k \<le> x < 2^(k+1)\<close>.\<close>

definition binade :: "real \<Rightarrow> int" where
  "binade x = (if 1 \<le> x then int (bit_length (nat \<lfloor>x\<rfloor>)) - 1
               else - int (bit_length (nat (\<lceil>1 / x\<rceil> - 1))))"

text \<open>Rounding to the nearest integer, a tie going to the even one.\<close>

definition round_half_even :: "real \<Rightarrow> int" where
  "round_half_even q =
     (let f = \<lfloor>q\<rfloor>
      in if q - of_int f < 1 / 2 then f
         else if 1 / 2 < q - of_int f then f + 1
         else if even f then f else f + 1)"

text \<open>
  The double nearest to a real (round to nearest, ties to even): the result keeps 53
  binary digits, fewer below \<open>2^-1022\<close>, and a magnitude that rounds to \<open>2^1024\<close> or more
  becomes an infinity.
\<close>

definition round_double :: "real \<Rightarrow> number" where
  "round_double x =
     (if x = 0 then Finite 0
      else
        let e = max (binade \<bar>x\<bar> - 52) (- 1074);
            m = round_half_even (\<bar>x\<bar> / pow2 e)
        in if 2 ^ 1024 \<le> of_int m * pow2 e then (if 0 < x then PosInf else NegInf)
           else Finite (sgn x * of_int m * pow2 e))"

text \<open>\<open>a + b\<close>, \<open>a - b\<close>, \<open>a * b\<close> and \<open>a / b\<close> on numbers; the quotient for a divisor
  other than zero, the only one the code divides by.\<close>

fun negate :: "number \<Rightarrow> number" where
  "negate (Finite x) = Finite (- x)"
| "negate PosInf = NegInf"
| "negate NegInf = PosInf"
| "negate NaN = NaN"

fun number_add :: "number \<Rightarrow> number \<Rightarrow> number" where
  "number_add NaN b = NaN"
| "number_add a NaN = NaN"
| "number_add PosInf NegInf = NaN"
| "number_add NegInf PosInf = NaN"
| "number_add PosInf b = PosInf"
| "number_add NegInf b = NegInf"
| "number_add a PosInf = PosInf"
| "number_add a NegInf = NegInf"
| "number_add (Finite x) (Finite y) = round_double (x + y)"

definition number_subtract :: "number \<Rightarrow> number \<Rightarrow> number" where
  "number_subtract a b = number_add a (negate b)"

text \<open>The sign of a number other than zero and \<open>NaN\<close>, and the infinity of a sign.\<close>

fun positive :: "number \<Rightarrow> bool" where
  "positive (Finite x) = (0 < x)"
| "positive PosInf = True"
| "positive NegInf = False"
| "positive NaN = False"

definition infinity :: "bool \<Rightarrow> number" where
  "infinity pos = (if pos then PosInf else NegInf)"

fun is_infinite :: "number \<Rightarrow> bool" where
  "is_infinite PosInf = True"
| "is_infinite NegInf = True"
| "is_infinite a = False"

fun number_multiply :: "number \<Rightarrow> number \<Rightarrow> number" where
  "number_multiply NaN b = NaN"
| "number_multiply a NaN = NaN"
| "number_multiply (Finite x) (Finite y) = round_double (x * y)"
| "number_multiply a b =
     (if a = Finite 0 \<or> b = Finite 0 then NaN else infinity (positive a = positive b))"

fun number_divide :: "number \<Rightarrow> number \<Rightarrow> number" where
  "number_divide NaN b = NaN"
| "number_divide a NaN = NaN"
| "number_divide (Finite x) (Finite y) = round_double (x / y)"
| "number_divide (Finite x) b = Finite 0"
| "number_divide a (Finite y) = infinity (positive a = (0 < y))"
| "number_divide a b = NaN"

section \<open>Values of the engine\<close>

text \<open>
  The server handles the values that \<open>JSON.parse\<close> returns, \<open>undefined\<close> (the value of
  a property that is not found), and what a property read can find on the objects
  that the engine itself provides: a built-in function, named by a text, and the
  built-in prototype objects. An object is the list of its own properties in the
  order in which the engine enumerates them. Text, on the wire and in string values,
  is kept in UTF-8, as the list of its bytes; the length and the indices of a string
  count UTF-16 code units, as the engine counts them.
\<close>

datatype builtin =
    Object_prototype
  | Array_prototype
  | String_prototype
  | Number_prototype
  | Boolean_prototype
  | Function_prototype

datatype jsval =
    JUndefined
  | JNull
  | JBool bool
  | JNum number
  | JStr string
  | JArr "jsval list"
  | JObj "(string \<times> jsval) list"
  | JFun string
  | JBuiltin builtin

text \<open>What the code throws: \<open>new Error(m)\<close>, an error object raised by the engine itself
  (its message text is the engine's), or a value that is no \<open>Error\<close> instance.\<close>

datatype thrown =
    Error string
  | TypeError
  | SyntaxError
  | NonError

fun instanceof_Error :: "thrown \<Rightarrow> bool" where
  "instanceof_Error NonError = False"
| "instanceof_Error _ = True"

text \<open>\<open>typeof v\<close>.\<close>

fun typeof :: "jsval \<Rightarrow> string" where
  "typeof JUndefined = ''undefined''"
| "typeof JNull = ''object''"
| "typeof (JBool _) = ''boolean''"
| "typeof (JNum _) = ''number''"
| "typeof (JStr _) = ''string''"
| "typeof (JArr _) = ''object''"
| "typeof (JObj _) = ''object''"
| "typeof (JFun _) = ''function''"
| "typeof (JBuiltin _) = ''object''"

text \<open>The truth value of \<open>v\<close> in a condition (\<open>if (v)\<close>, \<open>!v\<close>, \<open>v && ...\<close>).\<close>

fun truthy :: "jsval \<Rightarrow> bool" where
  "truthy JUndefined = False"
| "truthy JNull = False"
| "truthy (JBool b) = b"
| "truthy (JNum n) = (n \<noteq> Finite 0 \<and> n \<noteq> NaN)"
| "truthy (JStr s) = (s \<noteq> [])"
| "truthy (JArr _) = True"
| "truthy (JObj _) = True"
| "truthy (JFun _) = True"
| "truthy (JBuiltin _) = True"

text \<open>\<open>Array.isArray(v)\<close>; \<open>Array.prototype\<close> is itself an array.\<close>

fun isArray :: "jsval \<Rightarrow> bool" where
  "isArray (JArr _) = True"
| "isArray (JBuiltin b) = (b = Array_prototype)"
| "isArray _ = False"

fun nullish :: "jsval \<Rightarrow> bool" where
  "nullish JUndefined = True"
| "nullish JNull = True"
| "nullish _ = False"

subsection \<open>Property keys that are array indices\<close>

definition digit_of :: "char \<Rightarrow> nat option" where
  "digit_of c = (if 48 \<le> (of_char c :: nat) \<and> (of_char c :: nat) \<le> 57
                 then Some (of_char c - 48) else None)"

fun digits_value :: "nat \<Rightarrow> string \<Rightarrow> nat option" where
  "digits_value acc [] = Some acc"
| "digits_value acc (c # cs) =
     (case digit_of c of None \<Rightarrow> None | Some d \<Rightarrow> digits_value (10 * acc + d) cs)"

text \<open>A key is an index when it is the canonical decimal text of a natural number:
  digits only, not empty, no leading zero.\<close>

definition index_of_key :: "string \<Rightarrow> nat option" where
  "index_of_key k =
     (if k = [] then None
      else if hd k = CHR ''0'' \<and> tl k \<noteq> [] then None
      else digits_value 0 k)"

subsection \<open>Code units of a text\<close>

definition byte :: "char \<Rightarrow> nat" where
  "byte c = of_char c"

text \<open>The number of bytes of the character that starts with the byte \<open>b\<close>, and the
  number of UTF-16 code units of a text: a character of four bytes takes two code
  units, every other character one.\<close>

definition utf8_length :: "char \<Rightarrow> nat" where
  "utf8_length b = (if byte b < 0xC0 then 1 else if byte b < 0xE0 then 2
                    else if byte b < 0xF0 then 3 else 4)"

fun utf16_units :: "string \<Rightarrow> nat" where
  "utf16_units [] = 0"
| "utf16_units (b # bs) =
     (if 0x80 \<le> byte b \<and> byte b < 0xC0 then utf16_units bs
      else if 0xF0 \<le> byte b then 2 + utf16_units bs
      else 1 + utf16_units bs)"

text \<open>The two code units (surrogates) of a character of four bytes, each as the text
  that holds this one code unit.\<close>

definition encode3 :: "nat \<Rightarrow> string" where
  "encode3 u = [char_of (0xE0 + u div 4096), char_of (0x80 + (u div 64) mod 64),
                char_of (0x80 + u mod 64)]"

definition astral_offset :: "string \<Rightarrow> nat" where
  "astral_offset ch =
     (byte (ch ! 0) mod 8) * 262144 + (byte (ch ! 1) mod 64) * 4096
       + (byte (ch ! 2) mod 64) * 64 + byte (ch ! 3) mod 64 - 0x10000"

definition high_surrogate :: "string \<Rightarrow> string" where
  "high_surrogate ch = encode3 (0xD800 + astral_offset ch div 1024)"

definition low_surrogate :: "string \<Rightarrow> string" where
  "low_surrogate ch = encode3 (0xDC00 + astral_offset ch mod 1024)"

text \<open>\<open>s[i]\<close>: the text of the code unit at index \<open>i\<close>, if there is one.\<close>

function unit_at :: "string \<Rightarrow> nat \<Rightarrow> string option" where
  "unit_at [] i = None"
| "unit_at (b # bs) i =
     (if length bs + 1 < utf8_length b then (if i = 0 then Some (b # bs) else None)
      else if utf8_length b = 4 then
        (if i = 0 then Some (high_surrogate (b # take 3 bs))
         else if i = 1 then Some (low_surrogate (b # take 3 bs))
         else unit_at (drop 3 bs) (i - 2))
      else
        (if i = 0 then Some (b # take (utf8_length b - 1) bs)
         else unit_at (drop (utf8_length b - 1) bs) (i - 1)))"
  by pat_completeness auto
termination
  by (relation "measure (\<lambda>(s, i). length s)") auto

section \<open>The engine\<close>

text \<open>
  A property of a built-in object holds a value, or it is the accessor \<open>__proto__\<close>
  of \<open>Object.prototype\<close>, whose getter returns the prototype of the object it is read
  on.
\<close>

datatype 'v slot = Value 'v | Proto_accessor

text \<open>
  What the code takes from the engine: \<open>JSON.parse\<close> (\<open>None\<close> where it throws its
  \<open>SyntaxError\<close>), the text that \<open>JSON.stringify(v)\<close> contributes to the line written
  to the socket, the message text of the errors the engine raises itself (for a thrown
  value that is no error object: its text), the text of a number and of an object in
  a template literal (or what the conversion throws), the own properties of the
  built-in prototype objects and of the built-in functions as they are at the time
  of the call, what \<open>Object.entries\<close> and the loop of the validation over it give on a
  built-in prototype object, and what the promises of \<open>fs.readFile(path, "utf-8")\<close> and
  \<open>fs.writeFile(path, content, "utf-8")\<close> settle to. The theorems hold for every such
  engine, so for every version of the engine and for every state in which earlier
  requests have left its prototype objects.
\<close>

record engine =
  JSON_parse :: "string \<Rightarrow> jsval option"
  JSON_stringify :: "jsval \<Rightarrow> string"
  engine_message :: "thrown \<Rightarrow> string"
  number_text :: "number \<Rightarrow> string"
  object_text :: "jsval \<Rightarrow> thrown + string"
  prototype_props :: "builtin \<Rightarrow> (string \<times> jsval slot) list"
  function_props :: "string \<Rightarrow> (string \<times> jsval slot) list"
  validate_builtin :: "jsval \<Rightarrow> builtin \<Rightarrow> thrown + bool"
  fs_readFile :: "jsval \<Rightarrow> thrown + string"
  fs_writeFile :: "jsval \<Rightarrow> jsval \<Rightarrow> thrown + unit"

subsection \<open>Property reads\<close>

text \<open>
  The prototype of a value: where a property read goes on when the value has no own
  property of that name. Objects that \<open>JSON.parse\<close> builds have the prototypes that the
  engine gives to every object and array; the prototype of \<open>Object.prototype\<close> is
  \<open>null\<close>, and that of the other built-in prototypes is \<open>Object.prototype\<close>.
\<close>

fun prototype_of :: "jsval \<Rightarrow> builtin option" where
  "prototype_of (JObj kvs) = Some Object_prototype"
| "prototype_of (JArr xs) = Some Array_prototype"
| "prototype_of (JStr s) = Some String_prototype"
| "prototype_of (JNum n) = Some Number_prototype"
| "prototype_of (JBool b) = Some Boolean_prototype"
| "prototype_of (JFun f) = Some Function_prototype"
| "prototype_of (JBuiltin b) = (if b = Object_prototype then None else Some Object_prototype)"
| "prototype_of JUndefined = None"
| "prototype_of JNull = None"

text \<open>The own property \<open>k\<close> of a value, if it has one.\<close>

fun own_slot :: "engine \<Rightarrow> jsval \<Rightarrow> string \<Rightarrow> jsval slot option" where
  "own_slot E (JObj kvs) k = map_option Value (map_of kvs k)"
| "own_slot E (JArr xs) k =
     (if k = ''length'' then Some (Value (JNum (Finite (real (length xs)))))
      else (case index_of_key k of
              Some i \<Rightarrow> if i < length xs then Some (Value (xs ! i)) else None
            | None \<Rightarrow> None))"
| "own_slot E (JStr s) k =
     (if k = ''length'' then Some (Value (JNum (Finite (real (utf16_units s)))))
      else (case index_of_key k of
              Some i \<Rightarrow> map_option (\<lambda>u. Value (JStr u)) (unit_at s i)
            | None \<Rightarrow> None))"
| "own_slot E (JFun f) k = map_of (function_props E f) k"
| "own_slot E (JBuiltin b) k = map_of (prototype_props E b) k"
| "own_slot E v k = None"

text \<open>The property \<open>k\<close> as the read finds it: on the value itself, or else on its
  prototype, or else on the prototype of that.\<close>

definition find_slot :: "engine \<Rightarrow> jsval \<Rightarrow> string \<Rightarrow> jsval slot option" where
  "find_slot E v k =
     (case own_slot E v k of
        Some s \<Rightarrow> Some s
      | None \<Rightarrow>
          (case prototype_of v of
             None \<Rightarrow> None
           | Some b \<Rightarrow>
               (case map_of (prototype_props E b) k of
                  Some s \<Rightarrow> Some s
                | None \<Rightarrow>
                    if b = Object_prototype then None
                    else map_of (prototype_props E Object_prototype) k)))"

text \<open>What the getter of \<open>__proto__\<close> returns on \<open>v\<close>.\<close>

definition getPrototypeOf :: "jsval \<Rightarrow> jsval" where
  "getPrototypeOf v = (case prototype_of v of Some b \<Rightarrow> JBuiltin b | None \<Rightarrow> JNull)"

text \<open>\<open>v[k]\<close> for a value \<open>v\<close> that is neither \<open>undefined\<close> nor \<open>null\<close> (on those
  the engine throws; the callers below test for them first).\<close>

definition get_prop :: "engine \<Rightarrow> jsval \<Rightarrow> string \<Rightarrow> jsval" where
  "get_prop E v k =
     (case find_slot E v k of
        None \<Rightarrow> JUndefined
      | Some (Value x) \<Rightarrow> x
      | Some Proto_accessor \<Rightarrow> getPrototypeOf v)"

subsection \<open>Conversion to text in a template literal\<close>

text \<open>\<open>`${v}`\<close>. The text of a number and the conversion of an object (through its
  \<open>toString\<close> and \<open>valueOf\<close>) are the engine's.\<close>

fun ToString :: "engine \<Rightarrow> jsval \<Rightarrow> thrown + string" where
  "ToString E JUndefined = Inr ''undefined''"
| "ToString E JNull = Inr ''null''"
| "ToString E (JBool b) = Inr (if b then ''true'' else ''false'')"
| "ToString E (JNum n) = Inr (number_text E n)"
| "ToString E (JStr s) = Inr s"
| "ToString E v = object_text E v"

subsection \<open>Splitting text\<close>

text \<open>\<open>s.split(sep)\<close> for a separator of one character.\<close>

fun split_on :: "char \<Rightarrow> string \<Rightarrow> string list" where
  "split_on sep [] = [[]]"
| "split_on sep (c # cs) =
     (if c = sep then [] # split_on sep cs
      else (case split_on sep cs of
              [] \<Rightarrow> [[c]]
            | l # ls \<Rightarrow> (c # l) # ls))"

section \<open>The tool registry and the dispatcher\<close>

text \<open>
  \<open>interface Tool\<close>. \<open>execute\<close> returns a promise: it resolves to a value (\<open>Inr\<close>) or
  rejects with what was thrown (\<open>Inl\<close>).
\<close>

record Tool =
  name :: string
  description :: string
  execute :: "jsval \<Rightarrow> thrown + jsval"

type_synonym registry = "string \<Rightarrow> Tool option"

text \<open>\<open>registerTool\<close>: \<open>this.tools.set(tool.name, tool)\<close>.\<close>

definition registerTool :: "Tool \<Rightarrow> registry \<Rightarrow> registry" where
  "registerTool tool tools = tools(name tool \<mapsto> tool)"

text \<open>\<open>this.tools.get(tool)\<close>: the keys of the map are strings, so any other value of
  \<open>tool\<close> finds nothing.\<close>

fun tools_get :: "registry \<Rightarrow> jsval \<Rightarrow> Tool option" where
  "tools_get tools (JStr s) = tools s"
| "tools_get tools _ = None"

fun message_of :: "engine \<Rightarrow> thrown \<Rightarrow> string" where
  "message_of E (Error m) = m"
| "message_of E e = engine_message E e"

definition error_envelope :: "string \<Rightarrow> jsval" where
  "error_envelope m = JObj [(''error'', JStr m)]"

text \<open>
  The body of the \<open>try\<close> block of \<open>handleMessage\<close>: destructuring \<open>message\<close> throws on
  \<open>null\<close> and \<open>undefined\<close>; an unknown tool throws \<open>Tool ${tool} not found\<close>; otherwise
  the outcome is that of the tool.
\<close>

definition handleMessage_try :: "engine \<Rightarrow> registry \<Rightarrow> jsval \<Rightarrow> thrown + jsval" where
  "handleMessage_try E tools message =
     (if nullish message then Inl TypeError
      else
        let tool = get_prop E message ''tool'';
            params = get_prop E message ''params''
        in (case tools_get tools tool of
              None \<Rightarrow>
                (case ToString E tool of
                   Inl e \<Rightarrow> Inl e
                 | Inr s \<Rightarrow> Inl (Error (''Tool '' @ s @ '' not found'')))
            | Some toolImpl \<Rightarrow> execute toolImpl params))"

text \<open>\<open>handleMessage\<close>, with its \<open>catch\<close>. The result is the outcome of the promise it
  returns: \<open>Inr\<close> when it resolves, \<open>Inl\<close> when it rejects.\<close>

definition handleMessage :: "engine \<Rightarrow> registry \<Rightarrow> jsval \<Rightarrow> thrown + jsval" where
  "handleMessage E tools message =
     (case handleMessage_try E tools message of
        Inr v \<Rightarrow> Inr v
      | Inl e \<Rightarrow>
          Inr (error_envelope
                 (if instanceof_Error e then message_of E e else ''Unknown error'')))"

subsection \<open>The echo tool\<close>

text \<open>\<open>execute: async (params) => { return { message: params.message }; }\<close>. Reading a
  property of \<open>null\<close> or \<open>undefined\<close> throws.\<close>

definition echo_execute :: "engine \<Rightarrow> jsval \<Rightarrow> thrown + jsval" where
  "echo_execute E params =
     (if nullish params then Inl TypeError
      else Inr (JObj [(''message'', get_prop E params ''message'')]))"

definition echo :: "engine \<Rightarrow> Tool" where
  "echo E = \<lparr>name = ''echo'',
             description = ''A simple echo tool that returns the input'',
             execute = echo_execute E\<rparr>"

subsection \<open>The fileContent tool\<close>

text \<open>
  \<open>execute\<close> of fileContent. The parameters are taken apart before the \<open>try\<close> block;
  whatever is thrown inside it is thrown again as
  \<open>new Error(`File operation failed: ${...}`)\<close>. The promise settles after the file system
  has answered. What a write does to later reads is not modelled.
\<close>

definition fileContent_try :: "engine \<Rightarrow> jsval \<Rightarrow> jsval \<Rightarrow> jsval \<Rightarrow> thrown + jsval" where
  "fileContent_try E operation path content =
     (if operation = JStr ''read'' then
        (case fs_readFile E path of
           Inl e \<Rightarrow> Inl e
         | Inr fileContent \<Rightarrow> Inr (JObj [(''content'', JStr fileContent)]))
      else if operation = JStr ''write'' \<and> content \<noteq> JUndefined then
        (case fs_writeFile E path content of
           Inl e \<Rightarrow> Inl e
         | Inr u \<Rightarrow> Inr (JObj [(''success'', JBool True)]))
      else Inl (Error ''Invalid operation or missing content for write''))"

definition fileContent_execute :: "engine \<Rightarrow> jsval \<Rightarrow> thrown + jsval" where
  "fileContent_execute E params =
     (if nullish params then Inl TypeError
      else (case fileContent_try E (get_prop E params ''operation'') (get_prop E params ''path'')
                   (get_prop E params ''content'') of
              Inr v \<Rightarrow> Inr v
            | Inl error \<Rightarrow> Inl (Error (''File operation failed: '' @ message_of E error))))"

definition fileContent :: "engine \<Rightarrow> Tool" where
  "fileContent E = \<lparr>name = ''fileContent'',
                     description = ''Read or write file content'',
                     execute = fileContent_execute E\<rparr>"

subsection \<open>The calculate tool\<close>

text \<open>
  \<open>execute\<close> of the calculate tool at its declared parameter type
  \<open>{operation, a: number, b: number}\<close>, after \<open>const { operation, a, b } = params\<close>.
  \<open>b === 0\<close> holds of zero only (not of \<open>NaN\<close>).
\<close>

definition calculate :: "string \<Rightarrow> number \<Rightarrow> number \<Rightarrow> thrown + jsval" where
  "calculate operation a b =
     (if operation = ''add'' then Inr (JObj [(''result'', JNum (number_add a b))])
      else if operation = ''subtract'' then Inr (JObj [(''result'', JNum (number_subtract a b))])
      else if operation = ''multiply'' then Inr (JObj [(''result'', JNum (number_multiply a b))])
      else if operation = ''divide'' then
        (if b = Finite 0 then Inl (Error ''Division by zero'')
         else Inr (JObj [(''result'', JNum (number_divide a b))]))
      else Inl (Error ''Invalid operation''))"

section \<open>The jsonProcess tool\<close>

subsection \<open>Validation\<close>

text \<open>
  \<open>validateField(value, schemaField)\<close>. The result is \<open>Inr\<close> of the boolean it returns,
  or \<open>Inl\<close> of what it throws: \<open>typeof null\<close> is \<open>"object"\<close>, so a \<open>null\<close> in the schema
  takes the object branch, where \<open>Object.entries(null)\<close> throws once the value has
  passed the test before it. \<open>every_entry\<close> is
  \<open>Object.entries(schemaField).every(([key, type]) => validateField(value[key], type))\<close>:
  it stops at the first entry that fails. \<open>value[key]\<close> is a property read like any
  other: it finds what the value inherits from its prototype.
\<close>

fun validateField :: "engine \<Rightarrow> jsval \<Rightarrow> jsval \<Rightarrow> thrown + bool"
  and every_entry :: "engine \<Rightarrow> jsval \<Rightarrow> (string \<times> jsval) list \<Rightarrow> thrown + bool" where
  "validateField E v (JStr s) = Inr (typeof v = s)"
| "validateField E v (JObj entries) =
     (if \<not> truthy v \<or> typeof v \<noteq> ''object'' then Inr False else every_entry E v entries)"
| "validateField E v JNull =
     (if \<not> truthy v \<or> typeof v \<noteq> ''object'' then Inr False else Inl TypeError)"
| "validateField E v (JBuiltin b) =
     (if isArray (JBuiltin b) then Inr True
      else if \<not> truthy v \<or> typeof v \<noteq> ''object'' then Inr False
      else validate_builtin E v b)"
| "validateField E v JUndefined = Inr True"
| "validateField E v (JBool b) = Inr True"
| "validateField E v (JNum n) = Inr True"
| "validateField E v (JArr xs) = Inr True"
| "validateField E v (JFun f) = Inr True"
| "every_entry E v [] = Inr True"
| "every_entry E v ((k, t) # rest) =
     (case validateField E (get_prop E v k) t of
        Inl e \<Rightarrow> Inl e
      | Inr ok \<Rightarrow> if ok then every_entry E v rest else Inr False)"

text \<open>
  The words of the specification for validation: a schema leaf that is a string
  matches a value whose runtime type is that string; a schema object node matches a
  value that is an object, every declared key matching the corresponding field. The
  field \<open>k\<close> of a value is what the value itself holds under \<open>k\<close>.
\<close>

definition is_object :: "jsval \<Rightarrow> bool" where
  "is_object v = (typeof v = ''object'' \<and> v \<noteq> JNull)"

fun field :: "jsval \<Rightarrow> string \<Rightarrow> jsval" where
  "field (JObj kvs) k = (case map_of kvs k of Some v \<Rightarrow> v | None \<Rightarrow> JUndefined)"
| "field (JArr xs) k =
     (if k = ''length'' then JNum (Finite (real (length xs)))
      else (case index_of_key k of
              Some i \<Rightarrow> if i < length xs then xs ! i else JUndefined
            | None \<Rightarrow> JUndefined))"
| "field (JStr s) k =
     (if k = ''length'' then JNum (Finite (real (utf16_units s)))
      else (case index_of_key k of
              Some i \<Rightarrow> (case unit_at s i of Some u \<Rightarrow> JStr u | None \<Rightarrow> JUndefined)
            | None \<Rightarrow> JUndefined))"
| "field v k = JUndefined"

inductive matches :: "jsval \<Rightarrow> jsval \<Rightarrow> bool" where
  leaf: "typeof v = s \<Longrightarrow> matches v (JStr s)"
| node: "is_object v \<Longrightarrow> (\<forall>(k, sub) \<in> set entries. matches (field v k) sub)
         \<Longrightarrow> matches v (JObj entries)"

text \<open>A schema made of type-name strings and object nodes only, and the keys that it
  declares, at any depth.\<close>

fun plain_schema :: "jsval \<Rightarrow> bool"
  and plain_entries :: "(string \<times> jsval) list \<Rightarrow> bool" where
  "plain_schema (JStr s) = True"
| "plain_schema (JObj entries) = plain_entries entries"
| "plain_schema JUndefined = False"
| "plain_schema JNull = False"
| "plain_schema (JBool b) = False"
| "plain_schema (JNum n) = False"
| "plain_schema (JArr xs) = False"
| "plain_schema (JFun f) = False"
| "plain_schema (JBuiltin b) = False"
| "plain_entries [] = True"
| "plain_entries ((k, t) # rest) = (plain_schema t \<and> plain_entries rest)"

fun schema_keys :: "jsval \<Rightarrow> string list"
  and entries_keys :: "(string \<times> jsval) list \<Rightarrow> string list" where
  "schema_keys (JObj entries) = entries_keys entries"
| "schema_keys JUndefined = []"
| "schema_keys JNull = []"
| "schema_keys (JBool b) = []"
| "schema_keys (JNum n) = []"
| "schema_keys (JStr s) = []"
| "schema_keys (JArr xs) = []"
| "schema_keys (JFun f) = []"
| "schema_keys (JBuiltin b) = []"
| "entries_keys [] = []"
| "entries_keys ((k, t) # rest) = k # schema_keys t @ entries_keys rest"

text \<open>A key for which the prototypes of objects and arrays have no property: a read
  of it on an object or an array finds own properties only.\<close>

definition not_inherited :: "engine \<Rightarrow> string \<Rightarrow> bool" where
  "not_inherited E k =
     (map_of (prototype_props E Object_prototype) k = None
      \<and> map_of (prototype_props E Array_prototype) k = None)"

text \<open>A tree that holds no function and no built-in object, as every value that
  \<open>JSON.parse\<close> returns.\<close>

fun json :: "jsval \<Rightarrow> bool"
  and json_list :: "jsval list \<Rightarrow> bool"
  and json_entries :: "(string \<times> jsval) list \<Rightarrow> bool" where
  "json (JArr xs) = json_list xs"
| "json (JObj kvs) = json_entries kvs"
| "json (JFun f) = False"
| "json (JBuiltin b) = False"
| "json JUndefined = True"
| "json JNull = True"
| "json (JBool b) = True"
| "json (JNum n) = True"
| "json (JStr s) = True"
| "json_list [] = True"
| "json_list (x # xs) = (json x \<and> json_list xs)"
| "json_entries [] = True"
| "json_entries ((k, x) # kvs) = (json x \<and> json_entries kvs)"

subsection \<open>The store\<close>

text \<open>
  The transformation branch updates objects in place through the reference \<open>current\<close>,
  so it is modelled on a store: objects and arrays live at addresses, and a value is a
  primitive, a built-in function or a reference. Address \<open>a\<close> of a store \<open>h\<close> is its
  \<open>a\<close>-th object; a new object is added at the end. An element of an array is missing
  (\<open>None\<close>) where the array has a hole. The built-in prototype objects are part of the
  store, at the first six addresses: the code reaches them through property reads,
  and what it writes there stays for every later request.
\<close>

type_synonym addr = nat

datatype hval = HUndefined | HNull | HBool bool | HNum number | HStr string | HRef addr
  | HFun string

datatype hobj =
    HObject "(string \<times> hval) list"
  | HArray "hval option list"
  | HProto "(string \<times> hval slot) list"

type_synonym heap = "hobj list"

fun address_of :: "builtin \<Rightarrow> addr" where
  "address_of Object_prototype = 0"
| "address_of Array_prototype = 1"
| "address_of String_prototype = 2"
| "address_of Number_prototype = 3"
| "address_of Boolean_prototype = 4"
| "address_of Function_prototype = 5"

definition builtin_at :: "addr \<Rightarrow> builtin option" where
  "builtin_at a =
     (if a = 0 then Some Object_prototype else if a = 1 then Some Array_prototype
      else if a = 2 then Some String_prototype else if a = 3 then Some Number_prototype
      else if a = 4 then Some Boolean_prototype else if a = 5 then Some Function_prototype
      else None)"

text \<open>The own properties of a built-in prototype object in the store.\<close>

definition proto_entries :: "heap \<Rightarrow> builtin \<Rightarrow> (string \<times> hval slot) list" where
  "proto_entries h b =
     (if address_of b < length h
      then (case h ! address_of b of HProto es \<Rightarrow> es | HObject fs \<Rightarrow> [] | HArray vs \<Rightarrow> [])
      else [])"

text \<open>How a step ends: it returns, it throws, or it leaves what this development
  models (it reads or writes a property of a built-in function, writes a built-in
  prototype other than \<open>Object.prototype\<close>, changes the prototype of an object, or
  writes to an array under a key that is no index).\<close>

datatype 'a outcome = Returns 'a | Throws thrown | Unmodelled

fun h_truthy :: "hval \<Rightarrow> bool" where
  "h_truthy HUndefined = False"
| "h_truthy HNull = False"
| "h_truthy (HBool b) = b"
| "h_truthy (HNum n) = (n \<noteq> Finite 0 \<and> n \<noteq> NaN)"
| "h_truthy (HStr s) = (s \<noteq> [])"
| "h_truthy (HRef a) = True"
| "h_truthy (HFun f) = True"

text \<open>\<open>JSON.parse\<close> builds its result from new objects: \<open>alloc\<close> puts the tree \<open>v\<close> into
  the store, parts before the whole.\<close>

fun alloc :: "jsval \<Rightarrow> heap \<Rightarrow> hval \<times> heap"
  and alloc_list :: "jsval list \<Rightarrow> heap \<Rightarrow> hval list \<times> heap"
  and alloc_fields :: "(string \<times> jsval) list \<Rightarrow> heap \<Rightarrow> (string \<times> hval) list \<times> heap" where
  "alloc JUndefined h = (HUndefined, h)"
| "alloc JNull h = (HNull, h)"
| "alloc (JBool b) h = (HBool b, h)"
| "alloc (JNum n) h = (HNum n, h)"
| "alloc (JStr s) h = (HStr s, h)"
| "alloc (JFun f) h = (HFun f, h)"
| "alloc (JBuiltin b) h = (HRef (address_of b), h)"
| "alloc (JArr xs) h =
     (case alloc_list xs h of (vs, h') \<Rightarrow> (HRef (length h'), h' @ [HArray (map Some vs)]))"
| "alloc (JObj kvs) h =
     (case alloc_fields kvs h of (fs, h') \<Rightarrow> (HRef (length h'), h' @ [HObject fs]))"
| "alloc_list [] h = ([], h)"
| "alloc_list (x # xs) h =
     (case alloc x h of (v, h1) \<Rightarrow>
        (case alloc_list xs h1 of (vs, h2) \<Rightarrow> (v # vs, h2)))"
| "alloc_fields [] h = ([], h)"
| "alloc_fields ((k, x) # kvs) h =
     (case alloc x h of (v, h1) \<Rightarrow>
        (case alloc_fields kvs h1 of (fs, h2) \<Rightarrow> ((k, v) # fs, h2)))"

text \<open>
  The tree that a value of the store denotes, read to depth \<open>n\<close>: \<open>None\<close> when the depth
  does not suffice (with \<open>n\<close> the size of the store: when the value reaches itself) or
  when a reference points outside the store. A hole of an array reads as \<open>undefined\<close>.
\<close>

fun view :: "nat \<Rightarrow> heap \<Rightarrow> hval \<Rightarrow> jsval option"
  and view_list :: "nat \<Rightarrow> heap \<Rightarrow> hval option list \<Rightarrow> jsval list option"
  and view_fields :: "nat \<Rightarrow> heap \<Rightarrow> (string \<times> hval) list \<Rightarrow> (string \<times> jsval) list option" where
  "view n h HUndefined = Some JUndefined"
| "view n h HNull = Some JNull"
| "view n h (HBool b) = Some (JBool b)"
| "view n h (HNum x) = Some (JNum x)"
| "view n h (HStr s) = Some (JStr s)"
| "view n h (HFun f) = Some (JFun f)"
| "view 0 h (HRef a) = None"
| "view (Suc n) h (HRef a) =
     (if a < length h
      then (case h ! a of
              HObject fs \<Rightarrow> map_option JObj (view_fields n h fs)
            | HArray vs \<Rightarrow> map_option JArr (view_list n h vs)
            | HProto es \<Rightarrow> map_option JBuiltin (builtin_at a))
      else None)"
| "view_list n h [] = Some []"
| "view_list n h (None # vs) = map_option ((#) JUndefined) (view_list n h vs)"
| "view_list n h (Some v # vs) =
     (case view n h v of
        None \<Rightarrow> None
      | Some x \<Rightarrow> map_option ((#) x) (view_list n h vs))"
| "view_fields n h [] = Some []"
| "view_fields n h ((k, v) # fs) =
     (case view n h v of
        None \<Rightarrow> None
      | Some x \<Rightarrow> map_option ((#) (k, x)) (view_fields n h fs))"

text \<open>
  The value that \<open>JSON.stringify\<close> writes for a tree: a property whose value is
  \<open>undefined\<close> is left out, an \<open>undefined\<close> element of an array is written \<open>null\<close>, and so
  is a number that is not finite.
\<close>

fun json_value :: "jsval \<Rightarrow> jsval"
  and json_elements :: "jsval list \<Rightarrow> jsval list"
  and json_fields :: "(string \<times> jsval) list \<Rightarrow> (string \<times> jsval) list" where
  "json_value (JArr xs) = JArr (json_elements xs)"
| "json_value (JObj kvs) = JObj (json_fields kvs)"
| "json_value JUndefined = JUndefined"
| "json_value JNull = JNull"
| "json_value (JBool b) = JBool b"
| "json_value (JNum n) = (case n of Finite x \<Rightarrow> JNum n | PosInf \<Rightarrow> JNull | NegInf \<Rightarrow> JNull | NaN \<Rightarrow> JNull)"
| "json_value (JStr s) = JStr s"
| "json_value (JFun f) = JFun f"
| "json_value (JBuiltin b) = JBuiltin b"
| "json_elements [] = []"
| "json_elements (x # xs) = (if x = JUndefined then JNull else json_value x) # json_elements xs"
| "json_fields [] = []"
| "json_fields ((k, x) # kvs) =
     (if x = JUndefined then json_fields kvs else (k, json_value x) # json_fields kvs)"


text \<open>\<open>JSON.stringify\<close> calls the \<open>toJSON\<close> of an object or an array where it finds a
  function under this name: a tree as \<open>JSON.parse\<close> returns it has none of its own, so
  it is one that the prototypes hold.\<close>

definition toJSON_callable :: "heap \<Rightarrow> bool" where
  "toJSON_callable h =
     ((case map_of (proto_entries h Object_prototype) ''toJSON'' of
         Some (Value (HFun f)) \<Rightarrow> True | _ \<Rightarrow> False)
      \<or> (case map_of (proto_entries h Array_prototype) ''toJSON'' of
            Some (Value (HFun f)) \<Rightarrow> True | _ \<Rightarrow> False))"

text \<open>
  \<open>JSON.parse(JSON.stringify(data))\<close> for data as \<open>JSON.parse\<close> returned them:
  \<open>JSON.stringify\<close> returns \<open>undefined\<close> for \<open>undefined\<close>, which \<open>JSON.parse\<close> rejects;
  otherwise the copy is built from new objects.
\<close>

definition deep_clone :: "heap \<Rightarrow> hval \<Rightarrow> hval outcome \<times> heap" where
  "deep_clone h data =
     (if toJSON_callable h then (Unmodelled, h)
      else
        (case view (length h) h data of
           None \<Rightarrow> (Unmodelled, h)
         | Some t \<Rightarrow>
             if t = JUndefined then (Throws SyntaxError, h)
             else if \<not> json t then (Unmodelled, h)
             else (case alloc (json_value t) h of (copy, h') \<Rightarrow> (Returns copy, h'))))"

subsection \<open>Property access in the store\<close>

text \<open>The prototype of a value of the store, its own property \<open>k\<close>, and the property
  \<open>k\<close> as a read finds it: on the value, on its prototype, or on the prototype of
  that.\<close>

fun h_prototype :: "heap \<Rightarrow> hval \<Rightarrow> builtin option" where
  "h_prototype h (HRef a) =
     (if a < length h
      then (case h ! a of
              HObject fs \<Rightarrow> Some Object_prototype
            | HArray vs \<Rightarrow> Some Array_prototype
            | HProto es \<Rightarrow> if a = 0 then None else Some Object_prototype)
      else None)"
| "h_prototype h (HStr s) = Some String_prototype"
| "h_prototype h (HNum n) = Some Number_prototype"
| "h_prototype h (HBool b) = Some Boolean_prototype"
| "h_prototype h (HFun f) = Some Function_prototype"
| "h_prototype h HUndefined = None"
| "h_prototype h HNull = None"

fun h_own :: "heap \<Rightarrow> hval \<Rightarrow> string \<Rightarrow> hval slot option" where
  "h_own h (HRef a) k =
     (if a < length h
      then (case h ! a of
              HObject fs \<Rightarrow> map_option Value (map_of fs k)
            | HArray vs \<Rightarrow>
                if k = ''length'' then Some (Value (HNum (Finite (real (length vs)))))
                else (case index_of_key k of
                        Some i \<Rightarrow> if i < length vs then map_option Value (vs ! i) else None
                      | None \<Rightarrow> None)
            | HProto es \<Rightarrow> map_of es k)
      else None)"
| "h_own h (HStr s) k =
     (if k = ''length'' then Some (Value (HNum (Finite (real (utf16_units s)))))
      else (case index_of_key k of
              Some i \<Rightarrow> map_option (\<lambda>u. Value (HStr u)) (unit_at s i)
            | None \<Rightarrow> None))"
| "h_own h v k = None"

definition h_inherited :: "heap \<Rightarrow> hval \<Rightarrow> string \<Rightarrow> hval slot option" where
  "h_inherited h v k =
     (case h_prototype h v of
        None \<Rightarrow> None
      | Some b \<Rightarrow>
          (case map_of (proto_entries h b) k of
             Some s \<Rightarrow> Some s
           | None \<Rightarrow>
               if b = Object_prototype then None
               else map_of (proto_entries h Object_prototype) k))"

definition h_find :: "heap \<Rightarrow> hval \<Rightarrow> string \<Rightarrow> hval slot option" where
  "h_find h v k = (case h_own h v k of Some s \<Rightarrow> Some s | None \<Rightarrow> h_inherited h v k)"

text \<open>\<open>current[k]\<close>: reading a property of \<open>null\<close> or \<open>undefined\<close> throws; the getter
  of \<open>__proto__\<close> returns the prototype of \<open>current\<close>.\<close>

fun modelled_receiver :: "heap \<Rightarrow> hval \<Rightarrow> bool" where
  "modelled_receiver h (HFun f) = False"
| "modelled_receiver h (HRef a) = (a < length h)"
| "modelled_receiver h v = True"

definition h_get :: "heap \<Rightarrow> hval \<Rightarrow> string \<Rightarrow> hval outcome" where
  "h_get h current k =
     (if current = HUndefined \<or> current = HNull then Throws TypeError
      else if \<not> modelled_receiver h current then Unmodelled
      else (case h_find h current k of
              None \<Rightarrow> Returns HUndefined
            | Some (Value v) \<Rightarrow> Returns v
            | Some Proto_accessor \<Rightarrow>
                Returns (case h_prototype h current of
                           Some b \<Rightarrow> HRef (address_of b)
                         | None \<Rightarrow> HNull)))"

text \<open>
  The place of a new own property: the engine enumerates the keys that are array
  indices (the decimal text of a number below \<open>2^32 - 1\<close>) first, in ascending order, and
  the other keys after them, in the order in which they were added.
\<close>

definition array_index :: "string \<Rightarrow> nat option" where
  "array_index k =
     (case index_of_key k of
        Some i \<Rightarrow> if i < 2 ^ 32 - 1 then Some i else None
      | None \<Rightarrow> None)"

fun insert_index :: "nat \<Rightarrow> string \<Rightarrow> 'v \<Rightarrow> (string \<times> 'v) list \<Rightarrow> (string \<times> 'v) list" where
  "insert_index i k v [] = [(k, v)]"
| "insert_index i k v ((k', v') # fs) =
     (case array_index k' of
        Some j \<Rightarrow> if j < i then (k', v') # insert_index i k v fs else (k, v) # (k', v') # fs
      | None \<Rightarrow> (k, v) # (k', v') # fs)"

definition insert_field :: "string \<Rightarrow> 'v \<Rightarrow> (string \<times> 'v) list \<Rightarrow> (string \<times> 'v) list" where
  "insert_field k v fs =
     (case array_index k of Some i \<Rightarrow> insert_index i k v fs | None \<Rightarrow> fs @ [(k, v)])"

fun replace_field :: "string \<Rightarrow> 'v \<Rightarrow> (string \<times> 'v) list \<Rightarrow> (string \<times> 'v) list" where
  "replace_field k v [] = []"
| "replace_field k v ((k', v') # fs) =
     (if k' = k then (k, v) # fs else (k', v') # replace_field k v fs)"

text \<open>Setting and removing an own property: a property that is there keeps its
  place.\<close>

definition put_field :: "string \<Rightarrow> 'v \<Rightarrow> (string \<times> 'v) list \<Rightarrow> (string \<times> 'v) list" where
  "put_field k v fs =
     (if map_of fs k = None then insert_field k v fs else replace_field k v fs)"

definition remove_field :: "string \<Rightarrow> (string \<times> 'v) list \<Rightarrow> (string \<times> 'v) list" where
  "remove_field k fs = filter (\<lambda>(k', v). k' \<noteq> k) fs"

text \<open>A value that is an object for the engine: the setter of \<open>__proto__\<close> takes an
  object or \<open>null\<close> as the new prototype and ignores every other value.\<close>

fun h_is_object :: "hval \<Rightarrow> bool" where
  "h_is_object (HRef a) = True"
| "h_is_object (HFun f) = True"
| "h_is_object v = False"

text \<open>
  \<open>current[k] = v\<close>, in strict mode (the code is the body of a class). A property of
  a primitive cannot be set. On an object, the assignment changes the own property
  \<open>k\<close>, or else runs the setter of \<open>__proto__\<close> if this is what the prototype holds
  under \<open>k\<close>, or else adds an own property. On an array, an index below the length
  replaces the element, and an index from the length on extends the array, leaving
  holes. On \<open>Object.prototype\<close>, a property is changed or added as on any object; its
  prototype cannot be changed.
\<close>

definition h_set :: "heap \<Rightarrow> hval \<Rightarrow> string \<Rightarrow> hval \<Rightarrow> unit outcome \<times> heap" where
  "h_set h current k v =
     (case current of
        HRef a \<Rightarrow>
          if a < length h
          then (case h ! a of
                  HObject fs \<Rightarrow>
                    if map_of fs k = None \<and> h_inherited h current k = Some Proto_accessor
                    then (if h_is_object v \<or> v = HNull then (Unmodelled, h) else (Returns (), h))
                    else (Returns (), h[a := HObject (put_field k v fs)])
                | HArray vs \<Rightarrow>
                    (case array_index k of
                       Some i \<Rightarrow>
                         if i < length vs then (Returns (), h[a := HArray (vs[i := Some v])])
                         else (Returns (),
                               h[a := HArray (vs @ replicate (i - length vs) None @ [Some v])])
                     | None \<Rightarrow> (Unmodelled, h))
                | HProto es \<Rightarrow>
                    if a \<noteq> 0 then (Unmodelled, h)
                    else if map_of es k = Some Proto_accessor
                    then (if h_is_object v then (Throws TypeError, h) else (Returns (), h))
                    else (Returns (), h[a := HProto (put_field k (Value v) es)]))
          else (Unmodelled, h)
      | HFun f \<Rightarrow> (Unmodelled, h)
      | HUndefined \<Rightarrow> (Throws TypeError, h)
      | HNull \<Rightarrow> (Throws TypeError, h)
      | _ \<Rightarrow>
          if h_find h current k = Some Proto_accessor then (Returns (), h)
          else (Throws TypeError, h))"

text \<open>
  \<open>delete current[k]\<close>, in strict mode: the index and \<open>length\<close> properties of a string
  and the \<open>length\<close> of an array cannot be removed; removing an element of an array
  leaves a hole; removing what is not there does nothing, and so does removing what
  is inherited.
\<close>

definition h_delete :: "heap \<Rightarrow> hval \<Rightarrow> string \<Rightarrow> unit outcome \<times> heap" where
  "h_delete h current k =
     (case current of
        HRef a \<Rightarrow>
          if a < length h
          then (case h ! a of
                  HObject fs \<Rightarrow> (Returns (), h[a := HObject (remove_field k fs)])
                | HArray vs \<Rightarrow>
                    if k = ''length'' then (Throws TypeError, h)
                    else (case index_of_key k of
                            Some i \<Rightarrow>
                              if i < length vs then (Returns (), h[a := HArray (vs[i := None])])
                              else (Returns (), h)
                          | None \<Rightarrow> (Returns (), h))
                | HProto es \<Rightarrow>
                    if a \<noteq> 0 then (Unmodelled, h)
                    else (Returns (), h[a := HProto (remove_field k es)]))
          else (Unmodelled, h)
      | HStr s \<Rightarrow>
          if k = ''length'' then (Throws TypeError, h)
          else (case index_of_key k of
                  Some i \<Rightarrow> if i < utf16_units s then (Throws TypeError, h) else (Returns (), h)
                | None \<Rightarrow> (Returns (), h))
      | HFun f \<Rightarrow> (Unmodelled, h)
      | HUndefined \<Rightarrow> (Throws TypeError, h)
      | HNull \<Rightarrow> (Throws TypeError, h)
      | _ \<Rightarrow> (Returns (), h))"

subsection \<open>Transformation\<close>

text \<open>\<open>interface JSONTransformation\<close>; \<open>value\<close> is \<open>undefined\<close> and \<open>newPath\<close> is \<open>None\<close> when
  the request leaves them out.\<close>

record 'v JSONTransformation =
  operation :: string
  path :: string
  value' :: 'v
  newPath :: "string option"

text \<open>
  The inner loop, over the parts of the path but the last:
  \<open>current = current[pathParts[i]]; if (!current) break;\<close>.
\<close>

fun navigate :: "heap \<Rightarrow> hval \<Rightarrow> string list \<Rightarrow> hval outcome" where
  "navigate h current [] = Returns current"
| "navigate h current (part # parts) =
     (case h_get h current part of
        Returns next \<Rightarrow> if h_truthy next then navigate h next parts else Returns next
      | Throws e \<Rightarrow> Throws e
      | Unmodelled \<Rightarrow> Unmodelled)"

text \<open>The body of \<open>if (current) { ... }\<close>: the \<open>switch\<close> on the operation; it has no
  default case.\<close>

definition apply_at :: "heap \<Rightarrow> hval \<Rightarrow> string \<Rightarrow> hval JSONTransformation \<Rightarrow> unit outcome \<times> heap" where
  "apply_at h current lastPart t =
     (if operation t = ''rename'' then
        (case newPath t of
           None \<Rightarrow> (Returns (), h)
         | Some np \<Rightarrow>
             if np = [] then (Returns (), h)
             else (case h_get h current lastPart of
                     Throws e \<Rightarrow> (Throws e, h)
                   | Unmodelled \<Rightarrow> (Unmodelled, h)
                   | Returns v \<Rightarrow>
                       (case h_set h current np v of
                          (Returns u, h1) \<Rightarrow> h_delete h1 current lastPart
                        | other \<Rightarrow> other)))
      else if operation t = ''delete'' then h_delete h current lastPart
      else if operation t = ''add'' then h_set h current lastPart (value' t)
      else (Returns (), h))"

text \<open>One pass of \<open>for (const t of transformations)\<close>.\<close>

definition apply_transformation :: "heap \<Rightarrow> hval \<Rightarrow> hval JSONTransformation \<Rightarrow> unit outcome \<times> heap" where
  "apply_transformation h result t =
     (let pathParts = split_on CHR ''.'' (path t)
      in (case navigate h result (butlast pathParts) of
            Throws e \<Rightarrow> (Throws e, h)
          | Unmodelled \<Rightarrow> (Unmodelled, h)
          | Returns current \<Rightarrow>
              if h_truthy current then apply_at h current (last pathParts) t
              else (Returns (), h)))"

fun apply_transformations :: "heap \<Rightarrow> hval \<Rightarrow> hval JSONTransformation list \<Rightarrow> unit outcome \<times> heap" where
  "apply_transformations h result [] = (Returns (), h)"
| "apply_transformations h result (t # ts) =
     (case apply_transformation h result t of
        (Returns u, h') \<Rightarrow> apply_transformations h' result ts
      | other \<Rightarrow> other)"

text \<open>The transformation branch of \<open>execute\<close>: the value of \<open>result\<close> that it returns,
  and the store it leaves.\<close>

definition transform :: "heap \<Rightarrow> hval \<Rightarrow> hval JSONTransformation list \<Rightarrow> hval outcome \<times> heap" where
  "transform h data transformations =
     (case deep_clone h data of
        (Returns result, h1) \<Rightarrow>
          (case apply_transformations h1 result transformations of
             (Returns u, h2) \<Rightarrow> (Returns result, h2)
           | (Throws e, h2) \<Rightarrow> (Throws e, h2)
           | (Unmodelled, h2) \<Rightarrow> (Unmodelled, h2))
      | (Throws e, h1) \<Rightarrow> (Throws e, h1)
      | (Unmodelled, h1) \<Rightarrow> (Unmodelled, h1))"

subsection \<open>The tool\<close>

text \<open>The request as \<open>JSON.parse\<close> built it: the data and the values of the
  transformations, each a tree of objects of its own.\<close>

fun load_transformations ::
    "jsval JSONTransformation list \<Rightarrow> heap \<Rightarrow> hval JSONTransformation list \<times> heap" where
  "load_transformations [] h = ([], h)"
| "load_transformations (t # ts) h =
     (case alloc (value' t) h of (v, h1) \<Rightarrow>
        (case load_transformations ts h1 of (ts', h2) \<Rightarrow>
           (\<lparr>operation = operation t, path = path t, value' = v, newPath = newPath t\<rparr> # ts', h2)))"

text \<open>The store that holds the built-in prototype objects as the engine has them,
  and the properties of the built-in prototype objects of a store.\<close>

fun alloc_slots :: "(string \<times> jsval slot) list \<Rightarrow> heap \<Rightarrow> (string \<times> hval slot) list \<times> heap" where
  "alloc_slots [] h = ([], h)"
| "alloc_slots ((k, Value x) # es) h =
     (case alloc x h of (v, h1) \<Rightarrow>
        (case alloc_slots es h1 of (es', h2) \<Rightarrow> ((k, Value v) # es', h2)))"
| "alloc_slots ((k, Proto_accessor) # es) h =
     (case alloc_slots es h of (es', h2) \<Rightarrow> ((k, Proto_accessor) # es', h2))"

definition realm_store :: "engine \<Rightarrow> heap" where
  "realm_store E =
     (case alloc_slots (prototype_props E Object_prototype)
             [HProto [], HProto [], HProto [], HProto [], HProto [], HProto []] of
        (e0, h0) \<Rightarrow>
     (case alloc_slots (prototype_props E Array_prototype) h0 of (e1, h1) \<Rightarrow>
     (case alloc_slots (prototype_props E String_prototype) h1 of (e2, h2) \<Rightarrow>
     (case alloc_slots (prototype_props E Number_prototype) h2 of (e3, h3) \<Rightarrow>
     (case alloc_slots (prototype_props E Boolean_prototype) h3 of (e4, h4) \<Rightarrow>
     (case alloc_slots (prototype_props E Function_prototype) h4 of (e5, h5) \<Rightarrow>
        HProto e0 # HProto e1 # HProto e2 # HProto e3 # HProto e4 # HProto e5 # drop 6 h5))))))"

fun view_slots :: "heap \<Rightarrow> (string \<times> hval slot) list \<Rightarrow> (string \<times> jsval slot) list" where
  "view_slots h [] = []"
| "view_slots h ((k, Proto_accessor) # es) = (k, Proto_accessor) # view_slots h es"
| "view_slots h ((k, Value v) # es) =
     (k, Value (case view (length h) h v of Some x \<Rightarrow> x | None \<Rightarrow> JUndefined)) # view_slots h es"

definition realm_props :: "heap \<Rightarrow> builtin \<Rightarrow> (string \<times> jsval slot) list" where
  "realm_props h b = view_slots h (proto_entries h b)"

text \<open>
  \<open>execute\<close> of jsonProcess at its declared parameter type: what it returns, read
  back as a tree, and the store that it leaves. \<open>schema\<close> is \<open>undefined\<close> and
  \<open>transformations\<close> is \<open>None\<close> when the request leaves them out; an array, even an empty
  one, is true in a condition. A result that holds a function or a built-in object is
  not followed further.
\<close>

definition jsonProcess_run ::
    "engine \<Rightarrow> string \<Rightarrow> jsval \<Rightarrow> jsval \<Rightarrow> jsval JSONTransformation list option
       \<Rightarrow> jsval outcome \<times> heap" where
  "jsonProcess_run E op data schema transformations =
     (if op = ''validate'' \<and> truthy schema then
        (case validateField E data schema of
           Inl e \<Rightarrow> (Throws e, realm_store E)
         | Inr isValid \<Rightarrow> (Returns (JObj [(''isValid'', JBool isValid)]), realm_store E))
      else if op = ''transform'' \<and> transformations \<noteq> None then
        (case alloc data (realm_store E) of (data', h0) \<Rightarrow>
           (case load_transformations (the transformations) h0 of (ts, h1) \<Rightarrow>
              (case transform h1 data' ts of
                 (Returns result, h2) \<Rightarrow>
                   (case view (length h2) h2 result of
                      Some r \<Rightarrow> if json r then (Returns (JObj [(''result'', r)]), h2)
                                else (Unmodelled, h2)
                    | None \<Rightarrow> (Unmodelled, h2))
               | (Throws e, h2) \<Rightarrow> (Throws e, h2)
               | (Unmodelled, h2) \<Rightarrow> (Unmodelled, h2))))
      else (Throws (Error ''Invalid operation or missing required parameters''), realm_store E))"

definition jsonProcess_execute ::
    "engine \<Rightarrow> string \<Rightarrow> jsval \<Rightarrow> jsval \<Rightarrow> jsval JSONTransformation list option \<Rightarrow> jsval outcome" where
  "jsonProcess_execute E op data schema transformations =
     fst (jsonProcess_run E op data schema transformations)"

text \<open>The engine as a call of jsonProcess leaves it for the requests that follow:
  with the built-in prototype objects as they are in the store at the end.\<close>

definition engine_after ::
    "engine \<Rightarrow> string \<Rightarrow> jsval \<Rightarrow> jsval \<Rightarrow> jsval JSONTransformation list option \<Rightarrow> engine" where
  "engine_after E op data schema transformations =
     E\<lparr>prototype_props := realm_props (snd (jsonProcess_run E op data schema transformations))\<rparr>"

subsection \<open>Regions of the store\<close>






section \<open>The connection framer\<close>

definition newline :: char where
  "newline = CHR 0x0A"

text \<open>\<open>s.includes("\n")\<close> and \<open>s.split("\n")\<close>.\<close>

definition includes_newline :: "string \<Rightarrow> bool" where
  "includes_newline s = (newline \<in> set s)"

definition split_newline :: "string \<Rightarrow> string list" where
  "split_newline s = split_on newline s"

subsection \<open>Trimming\<close>

text \<open>
  \<open>s.trim()\<close> strips white space and line terminators at both ends: the characters
  U+0009 to U+000D and U+0020 (one byte each), U+00A0 (two bytes), and U+1680, U+2000
  to U+200A, U+2028, U+2029, U+202F, U+205F, U+3000 and U+FEFF (three bytes each).
\<close>

definition ws1 :: "char \<Rightarrow> bool" where
  "ws1 c = (byte c \<in> {9, 10, 11, 12, 13, 32})"

definition ws2 :: "char \<Rightarrow> char \<Rightarrow> bool" where
  "ws2 c d = (byte c = 0xC2 \<and> byte d = 0xA0)"

definition ws3 :: "char \<Rightarrow> char \<Rightarrow> char \<Rightarrow> bool" where
  "ws3 c d e =
     ((byte c = 0xE1 \<and> byte d = 0x9A \<and> byte e = 0x80)
      \<or> (byte c = 0xE2 \<and> byte d = 0x80 \<and> 0x80 \<le> byte e \<and> byte e \<le> 0x8A)
      \<or> (byte c = 0xE2 \<and> byte d = 0x80 \<and> byte e \<in> {0xA8, 0xA9, 0xAF})
      \<or> (byte c = 0xE2 \<and> byte d = 0x81 \<and> byte e = 0x9F)
      \<or> (byte c = 0xE3 \<and> byte d = 0x80 \<and> byte e = 0x80)
      \<or> (byte c = 0xEF \<and> byte d = 0xBB \<and> byte e = 0xBF))"

fun trim_start :: "string \<Rightarrow> string" where
  "trim_start (c # d # e # s) =
     (if ws1 c then trim_start (d # e # s)
      else if ws2 c d then trim_start (e # s)
      else if ws3 c d e then trim_start s
      else c # d # e # s)"
| "trim_start [c, d] =
     (if ws1 c then trim_start [d] else if ws2 c d then [] else [c, d])"
| "trim_start [c] = (if ws1 c then [] else [c])"
| "trim_start [] = []"

text \<open>The same from the end, on the reversed text.\<close>

fun trim_reversed :: "string \<Rightarrow> string" where
  "trim_reversed (e # d # c # s) =
     (if ws1 e then trim_reversed (d # c # s)
      else if ws2 d e then trim_reversed (c # s)
      else if ws3 c d e then trim_reversed s
      else e # d # c # s)"
| "trim_reversed [e, d] =
     (if ws1 e then trim_reversed [d] else if ws2 d e then [] else [e, d])"
| "trim_reversed [e] = (if ws1 e then [] else [e])"
| "trim_reversed [] = []"

definition trim :: "string \<Rightarrow> string" where
  "trim s = rev (trim_reversed (rev (trim_start s)))"

subsection \<open>The text of a chunk\<close>

text \<open>
  \<open>data.toString()\<close> decodes the bytes of one chunk as UTF-8. Every well-formed
  character is kept. Where the bytes are not well formed, the decoder writes the
  replacement character U+FFFD for the longest ill-formed start of a character, and
  goes on with the byte after it; a character that the end of the chunk cuts is
  replaced as well. \<open>utf8_continue needed seen lower upper\<close> reads the rest of a
  character of which \<open>seen\<close> has been read and \<open>needed\<close> bytes are missing, the next one
  between \<open>lower\<close> and \<open>upper\<close>.
\<close>

definition replacement :: string where
  "replacement = [CHR 0xEF, CHR 0xBF, CHR 0xBD]"

function utf8_text :: "string \<Rightarrow> string"
  and utf8_start :: "char \<Rightarrow> string \<Rightarrow> string"
  and utf8_continue :: "nat \<Rightarrow> string \<Rightarrow> nat \<Rightarrow> nat \<Rightarrow> string \<Rightarrow> string" where
  "utf8_text [] = []"
| "utf8_text (b # bs) = utf8_start b bs"
| "utf8_start b bs =
     (if byte b < 0x80 then b # utf8_text bs
      else if 0xC2 \<le> byte b \<and> byte b \<le> 0xDF then utf8_continue 1 [b] 0x80 0xBF bs
      else if 0xE0 \<le> byte b \<and> byte b \<le> 0xEF then
        utf8_continue 2 [b] (if byte b = 0xE0 then 0xA0 else 0x80)
          (if byte b = 0xED then 0x9F else 0xBF) bs
      else if 0xF0 \<le> byte b \<and> byte b \<le> 0xF4 then
        utf8_continue 3 [b] (if byte b = 0xF0 then 0x90 else 0x80)
          (if byte b = 0xF4 then 0x8F else 0xBF) bs
      else replacement @ utf8_text bs)"
| "utf8_continue needed seen lower upper [] = replacement"
| "utf8_continue needed seen lower upper (b # bs) =
     (if lower \<le> byte b \<and> byte b \<le> upper then
        (if needed \<le> 1 then seen @ b # utf8_text bs
         else utf8_continue (needed - 1) (seen @ [b]) 0x80 0xBF bs)
      else replacement @ utf8_start b bs)"
  by pat_completeness auto
termination
  by (relation "measure (\<lambda>x. case x of
         Inl bs \<Rightarrow> 2 * length bs
       | Inr (Inl (b, bs)) \<Rightarrow> 2 * length bs + 1
       | Inr (Inr (needed, seen, lower, upper, bs)) \<Rightarrow> 2 * length bs)") auto

definition Buffer_toString :: "string \<Rightarrow> string" where
  "Buffer_toString data = utf8_text data"

subsection \<open>The data handler\<close>

definition invalid_message_format :: jsval where
  "invalid_message_format = error_envelope ''Invalid message format''"

text \<open>What \<open>socket.write(JSON.stringify(v) + "\n")\<close> writes.\<close>

definition response_line :: "engine \<Rightarrow> jsval \<Rightarrow> string" where
  "response_line E v = JSON_stringify E v @ [newline]"

text \<open>
  The line written once the promise of \<open>await this.handleMessage(request)\<close> has
  settled: the response, or the invalid-format envelope of the \<open>catch\<close> block if the
  promise rejects.
\<close>

definition settle_line :: "engine \<Rightarrow> registry \<Rightarrow> jsval \<Rightarrow> string" where
  "settle_line E tools request =
     (case handleMessage E tools request of
        Inr response \<Rightarrow> response_line E response
      | Inl e \<Rightarrow> response_line E invalid_message_format)"

text \<open>
  The \<open>try\<close>/\<open>catch\<close> statement of the loop body: the line it writes for \<open>msg\<close>. A throw
  of \<open>JSON.parse\<close> writes the invalid-format envelope.
\<close>

definition respond :: "engine \<Rightarrow> registry \<Rightarrow> string \<Rightarrow> string" where
  "respond E tools msg =
     (case JSON_parse E msg of
        None \<Rightarrow> response_line E invalid_message_format
      | Some request \<Rightarrow> settle_line E tools request)"

text \<open>One pass of the loop \<open>for (const msg of messages)\<close>: the lines written to the
  socket for \<open>msg\<close>. \<open>if (!msg.trim()) continue;\<close> skips a blank message.\<close>

definition process_message :: "engine \<Rightarrow> registry \<Rightarrow> string \<Rightarrow> string list" where
  "process_message E tools msg = (if trim msg = [] then [] else [respond E tools msg])"

definition process_messages :: "engine \<Rightarrow> registry \<Rightarrow> string list \<Rightarrow> string list" where
  "process_messages E tools messages = concat (map (process_message E tools) messages)"

text \<open>
  The \<open>data\<close> handler of one connection, run to its end: from the buffer and the bytes
  of the chunk to the new buffer and the lines written, in the order of the writes.
  \<open>messages.pop() || ""\<close> is the last element of the split.
\<close>

definition on_data :: "engine \<Rightarrow> registry \<Rightarrow> string \<Rightarrow> string \<Rightarrow> string \<times> string list" where
  "on_data E tools buffer data =
     (let buffer = buffer @ Buffer_toString data
      in if includes_newline buffer
         then (let messages = split_newline buffer
               in (last messages, process_messages E tools (butlast messages)))
         else (buffer, []))"

text \<open>A connection on which each chunk is handled after the handler of the chunk
  before it has run to its end: the buffer starts empty; the state is the buffer and
  everything written to the socket so far.\<close>

fun receive :: "engine \<Rightarrow> registry \<Rightarrow> string \<times> string list \<Rightarrow> string list \<Rightarrow> string \<times> string list" where
  "receive E tools (buffer, written) [] = (buffer, written)"
| "receive E tools (buffer, written) (chunk # chunks) =
     (case on_data E tools buffer chunk of
        (buffer', lines) \<Rightarrow> receive E tools (buffer', written @ lines) chunks)"

definition connection :: "engine \<Rightarrow> registry \<Rightarrow> string list \<Rightarrow> string \<times> string list" where
  "connection E tools chunks = receive E tools ([], []) chunks"

text \<open>The complete lines of a text (all that stands before its last newline, split at
  the newlines) and the text after its last newline; the text that a sequence of
  chunks adds to the buffer.\<close>

definition complete_lines :: "string \<Rightarrow> string list" where
  "complete_lines s = butlast (split_newline s)"

definition remainder :: "string \<Rightarrow> string" where
  "remainder s = last (split_newline s)"

definition received_text :: "string list \<Rightarrow> string" where
  "received_text chunks = concat (map Buffer_toString chunks)"

subsection \<open>Suspension at \<open>await\<close>\<close>

text \<open>
  The handler is an \<open>async\<close> function: at \<open>await this.handleMessage(request)\<close> it is
  suspended until the promise has settled, and the engine is free to run another
  handler in between. A suspended run of the handler is the request it waits for and
  the messages it has still to process.

  \<open>advance\<close> is the loop from the start of a pass up to the next \<open>await\<close>: it skips
  blank messages and answers those that \<open>JSON.parse\<close> rejects, and stops at the first
  message that parses, with the lines written on the way.
\<close>

type_synonym run = "jsval \<times> string list"

fun advance :: "engine \<Rightarrow> string list \<Rightarrow> string list \<times> run option" where
  "advance E [] = ([], None)"
| "advance E (msg # msgs) =
     (if trim msg = [] then advance E msgs
      else (case JSON_parse E msg of
              None \<Rightarrow>
                (case advance E msgs of
                   (lines, r) \<Rightarrow> (response_line E invalid_message_format # lines, r))
            | Some request \<Rightarrow> ([], Some (request, msgs))))"

text \<open>The state of a connection: the buffer, the suspended runs of the handler in the
  order in which they started, and what has been written to the socket.\<close>

type_synonym conn = "string \<times> run list \<times> string list"

fun add_run :: "run list \<Rightarrow> run option \<Rightarrow> run list" where
  "add_run runs None = runs"
| "add_run runs (Some r) = runs @ [r]"

text \<open>A \<open>data\<close> event: the handler starts and runs up to its first \<open>await\<close>.\<close>

fun data_event :: "engine \<Rightarrow> conn \<Rightarrow> string \<Rightarrow> conn" where
  "data_event E (buffer, runs, written) data =
     (let buffer = buffer @ Buffer_toString data
      in if includes_newline buffer
         then (let messages = split_newline buffer
               in (case advance E (butlast messages) of
                     (lines, r) \<Rightarrow> (last messages, add_run runs r, written @ lines)))
         else (buffer, runs, written))"

text \<open>The promise that run \<open>i\<close> waits for has settled: the run writes its line and
  goes on up to its next \<open>await\<close>, or to its end.\<close>

fun settle_event :: "engine \<Rightarrow> registry \<Rightarrow> conn \<Rightarrow> nat \<Rightarrow> conn" where
  "settle_event E tools (buffer, runs, written) i =
     (case runs ! i of
        (request, msgs) \<Rightarrow>
          (case advance E msgs of
             (lines, None) \<Rightarrow>
               (buffer, take i runs @ drop (Suc i) runs,
                written @ settle_line E tools request # lines)
           | (lines, Some r) \<Rightarrow>
               (buffer, runs[i := r], written @ settle_line E tools request # lines)))"

text \<open>
  A promise that does not wait for the file system has settled before the engine
  takes the next event from the socket; one that does can still be pending then. A
  request certainly waits for the file system when it asks a registered tool for a
  file operation on a path that is a string: fileContent to read, or to write a content
  that is a string, and listDir and searchFiles to read a directory.
\<close>

definition awaits_io :: "engine \<Rightarrow> registry \<Rightarrow> jsval \<Rightarrow> bool" where
  "awaits_io E tools request =
     (let tool = get_prop E request ''tool'';
          params = get_prop E request ''params''
      in typeof (get_prop E params ''path'') = ''string''
         \<and> ((tool = JStr ''fileContent'' \<and> tools ''fileContent'' \<noteq> None
              \<and> (get_prop E params ''operation'' = JStr ''read''
                  \<or> (get_prop E params ''operation'' = JStr ''write''
                      \<and> typeof (get_prop E params ''content'') = ''string'')))
             \<or> (tool = JStr ''listDir'' \<and> tools ''listDir'' \<noteq> None)
             \<or> (tool = JStr ''searchFiles'' \<and> tools ''searchFiles'' \<noteq> None)))"

fun all_await_io :: "engine \<Rightarrow> registry \<Rightarrow> run list \<Rightarrow> bool" where
  "all_await_io E tools [] = True"
| "all_await_io E tools ((request, msgs) # runs) =
     (awaits_io E tools request \<and> all_await_io E tools runs)"

text \<open>
  The events of a connection: a chunk arrives, or the promise of a suspended run
  settles. A chunk is taken only when every suspended run waits for the file system; a
  run that waits for the file system goes on only when no other run can. \<open>run_events\<close>
  is the state after a sequence of events, \<open>None\<close> if the engine cannot take them in
  this order.
\<close>

datatype event = Data string | Settled nat

fun run_events :: "engine \<Rightarrow> registry \<Rightarrow> conn \<Rightarrow> event list \<Rightarrow> conn option" where
  "run_events E tools c [] = Some c"
| "run_events E tools c (Data data # es) =
     (if all_await_io E tools (fst (snd c)) then run_events E tools (data_event E c data) es
      else None)"
| "run_events E tools c (Settled i # es) =
     (if i < length (fst (snd c))
         \<and> (\<not> awaits_io E tools (fst (fst (snd c) ! i)) \<or> all_await_io E tools (fst (snd c)))
      then run_events E tools (settle_event E tools c i) es
      else None)"

text \<open>The number of messages at which the handler will be suspended.\<close>

definition suspensions :: "engine \<Rightarrow> string list \<Rightarrow> nat" where
  "suspensions E msgs = length (filter (\<lambda>msg. trim msg \<noteq> [] \<and> JSON_parse E msg \<noteq> None) msgs)"

section \<open>An engine for the examples\<close>

text \<open>
  An excerpt of an engine, for evaluating the examples: \<open>JSON.parse\<close> on the request
  lines that the examples send (it rejects every other text), \<open>JSON.stringify\<close> on the
  values that they answer, and a file system with the one file \<open>test.txt\<close>.
\<close>

definition example_parse :: "string \<Rightarrow> jsval option" where
  "example_parse s =
     (if s = ''{}'' then Some (JObj [])
      else if s = ''{\"params\":{}}'' then Some (JObj [(''params'', JObj [])])
      else if s = ''{\"tool\":\"echo\",\"params\":{\"message\":\"hi\"}}''
        then Some (JObj [(''tool'', JStr ''echo''), (''params'', JObj [(''message'', JStr ''hi'')])])
      else if s = ''{\"tool\":\"echo\",\"params\":{\"message\":\"a\"}}''
        then Some (JObj [(''tool'', JStr ''echo''), (''params'', JObj [(''message'', JStr ''a'')])])
      else if s = ''{\"tool\":\"echo\",\"params\":{\"message\":\"b\"}}''
        then Some (JObj [(''tool'', JStr ''echo''), (''params'', JObj [(''message'', JStr ''b'')])])
      else if s = ''{\"tool\":\"echo\",\"params\":{\"message\":\"'' @ [CHR 0xC3, CHR 0xA9] @ ''\"}}''
        then Some (JObj [(''tool'', JStr ''echo''),
                         (''params'', JObj [(''message'', JStr [CHR 0xC3, CHR 0xA9])])])
      else if s = ''{\"tool\":\"echo\",\"params\":{\"message\":\"'' @ replacement @ replacement @ ''\"}}''
        then Some (JObj [(''tool'', JStr ''echo''),
                         (''params'', JObj [(''message'', JStr (replacement @ replacement))])])
      else if s = ''{\"tool\":\"fileContent\",\"params\":{\"operation\":\"read\",\"path\":\"test.txt\"}}''
        then Some (JObj [(''tool'', JStr ''fileContent''),
                         (''params'', JObj [(''operation'', JStr ''read''),
                                            (''path'', JStr ''test.txt'')])])
      else None)"

definition example_stringify :: "jsval \<Rightarrow> string" where
  "example_stringify v =
     (if v = JObj [(''message'', JStr ''hi'')] then ''{\"message\":\"hi\"}''
      else if v = JObj [(''message'', JStr ''a'')] then ''{\"message\":\"a\"}''
      else if v = JObj [(''message'', JStr ''b'')] then ''{\"message\":\"b\"}''
      else if v = JObj [(''message'', JStr [CHR 0xC3, CHR 0xA9])]
        then ''{\"message\":\"'' @ [CHR 0xC3, CHR 0xA9] @ ''\"}''
      else if v = JObj [(''message'', JStr (replacement @ replacement))]
        then ''{\"message\":\"'' @ replacement @ replacement @ ''\"}''
      else if v = JObj [(''content'', JStr ''Hello from MCP Server!'')]
        then ''{\"content\":\"Hello from MCP Server!\"}''
      else if v = JObj [(''error'', JStr ''Invalid message format'')]
        then ''{\"error\":\"Invalid message format\"}''
      else if v = JObj [(''error'', JStr ''Tool undefined not found'')]
        then ''{\"error\":\"Tool undefined not found\"}''
      else ''null'')"

text \<open>\<open>Object.prototype\<close> as the engine starts with it: its functions and the accessor
  \<open>__proto__\<close>. The examples read nothing from the other built-in objects, which this
  excerpt leaves empty.\<close>

definition pristine_Object_prototype :: "(string \<times> jsval slot) list" where
  "pristine_Object_prototype =
     [(''constructor'', Value (JFun ''Object'')),
      (''__defineGetter__'', Value (JFun ''Object.prototype.__defineGetter__'')),
      (''__defineSetter__'', Value (JFun ''Object.prototype.__defineSetter__'')),
      (''hasOwnProperty'', Value (JFun ''Object.prototype.hasOwnProperty'')),
      (''__lookupGetter__'', Value (JFun ''Object.prototype.__lookupGetter__'')),
      (''__lookupSetter__'', Value (JFun ''Object.prototype.__lookupSetter__'')),
      (''isPrototypeOf'', Value (JFun ''Object.prototype.isPrototypeOf'')),
      (''propertyIsEnumerable'', Value (JFun ''Object.prototype.propertyIsEnumerable'')),
      (''toString'', Value (JFun ''Object.prototype.toString'')),
      (''valueOf'', Value (JFun ''Object.prototype.valueOf'')),
      (''__proto__'', Proto_accessor),
      (''toLocaleString'', Value (JFun ''Object.prototype.toLocaleString''))]"

definition example_engine :: engine where
  "example_engine =
     \<lparr>JSON_parse = example_parse,
      JSON_stringify = example_stringify,
      engine_message = (\<lambda>e. ''engine error''),
      number_text = (\<lambda>n. ''0''),
      object_text = (\<lambda>v. Inr ''[object Object]''),
      prototype_props = (\<lambda>b. if b = Object_prototype then pristine_Object_prototype else []),
      function_props = (\<lambda>f. []),
      validate_builtin = (\<lambda>v b. Inr True),
      fs_readFile = (\<lambda>p. if p = JStr ''test.txt'' then Inr ''Hello from MCP Server!''
                          else Inl (Error ''ENOENT'')),
      fs_writeFile = (\<lambda>p content. Inr ())\<rparr>"

definition example_tools :: registry where
  "example_tools =
     registerTool (fileContent example_engine) (registerTool (echo example_engine) Map.empty)"

text \<open>The registry with the echo and fileContent tools of an engine.\<close>

definition server_tools :: "engine \<Rightarrow> registry" where
  "server_tools E = registerTool (fileContent E) (registerTool (echo E) Map.empty)"

text \<open>A request that adds the property \<open>tool\<close> under the path \<open>__proto__.tool\<close>, and the
  engine as the jsonProcess tool leaves it after this request on the data \<open>{}\<close>.\<close>

definition add_tool_to_prototype :: "jsval JSONTransformation list" where
  "add_tool_to_prototype =
     [\<lparr>operation = ''add'', path = ''__proto__.tool'', value' = JStr ''echo'', newPath = None\<rparr>]"

definition polluted_engine :: engine where
  "polluted_engine =
     engine_after example_engine ''transform'' (JObj []) JUndefined (Some add_tool_to_prototype)"

text \<open>A request that adds the property \<open>polluted\<close> under the path \<open>__proto__.polluted\<close>,
  and the engine as the jsonProcess tool leaves it after this request on the data
  \<open>{}\<close>.\<close>

definition add_flag_to_prototype :: "jsval JSONTransformation list" where
  "add_flag_to_prototype =
     [\<lparr>operation = ''add'', path = ''__proto__.polluted'', value' = JBool True, newPath = None\<rparr>]"

definition flagged_engine :: engine where
  "flagged_engine =
     engine_after example_engine ''transform'' (JObj []) JUndefined (Some add_flag_to_prototype)"
section \<open>Theorems\<close>

subsection \<open>Property reads\<close>

lemma get_prop_own [simp]: "map_of kvs k = Some x \<Longrightarrow> get_prop E (JObj kvs) k = x"
  by (simp add: get_prop_def find_slot_def)

lemma get_prop_nullish [simp]: "nullish v \<Longrightarrow> get_prop E v k = JUndefined"
  by (cases v) (simp_all add: get_prop_def find_slot_def)

subsection \<open>Splitting at newlines\<close>

lemma split_on_not_Nil [simp]: "split_on sep s \<noteq> []"
  by (induction s) (auto split: list.splits)

lemma split_on_append:
  "split_on sep (a @ b) =
     butlast (split_on sep a) @ (last (split_on sep a) @ hd (split_on sep b)) # tl (split_on sep b)"
proof (induction a)
  case Nil
  then show ?case by simp
next
  case (Cons c cs)
  show ?case
  proof (cases "c = sep")
    case True
    with Cons show ?thesis by simp
  next
    case False
    obtain l ls where sp: "split_on sep cs = l # ls"
      by (cases "split_on sep cs") auto
    show ?thesis
    proof (cases ls)
      case Nil
      with sp False Cons show ?thesis by simp
    next
      case (Cons l' ls')
      with sp False Cons.IH show ?thesis by simp
    qed
  qed
qed

lemma split_on_absent: "sep \<notin> set s \<Longrightarrow> split_on sep s = [s]"
  by (induction s) auto

lemma last_split_on_absent: "sep \<notin> set (last (split_on sep s))"
proof (induction s)
  case Nil
  then show ?case by simp
next
  case (Cons c cs)
  then show ?case by (cases "split_on sep cs") auto
qed

lemma split_newline_not_Nil [simp]: "split_newline s \<noteq> []"
  by (simp add: split_newline_def)

lemma split_newline_append:
  "split_newline (a @ b) =
     butlast (split_newline a) @ (last (split_newline a) @ hd (split_newline b)) # tl (split_newline b)"
  unfolding split_newline_def by (rule split_on_append)

lemma split_newline_no_newline: "\<not> includes_newline s \<Longrightarrow> split_newline s = [s]"
  by (simp add: split_newline_def includes_newline_def split_on_absent)

lemma remainder_no_newline: "\<not> includes_newline (remainder s)"
  by (simp add: remainder_def includes_newline_def split_newline_def last_split_on_absent)

lemma complete_lines_append:
  "complete_lines (a @ b) = complete_lines a @ complete_lines (remainder a @ b)"
proof -
  have r: "split_newline (remainder a) = [remainder a]"
    by (rule split_newline_no_newline [OF remainder_no_newline])
  have "split_newline (remainder a @ b) = (remainder a @ hd (split_newline b)) # tl (split_newline b)"
    by (subst split_newline_append) (simp add: r)
  then show ?thesis
    by (simp add: complete_lines_def remainder_def split_newline_append [of a b] butlast_append)
qed

lemma remainder_append: "remainder (a @ b) = remainder (remainder a @ b)"
proof -
  have r: "split_newline (remainder a) = [remainder a]"
    by (rule split_newline_no_newline [OF remainder_no_newline])
  have "split_newline (remainder a @ b) = (remainder a @ hd (split_newline b)) # tl (split_newline b)"
    by (subst split_newline_append) (simp add: r)
  then show ?thesis
    by (simp add: remainder_def split_newline_append [of a b])
qed

lemma process_messages_append:
  "process_messages E tools (xs @ ys) = process_messages E tools xs @ process_messages E tools ys"
  by (simp add: process_messages_def)


lemma process_messages_filter:
  "process_messages E tools msgs = map (respond E tools) (filter (\<lambda>msg. trim msg \<noteq> []) msgs)"
  by (induction msgs) (simp_all add: process_messages_def process_message_def)

lemma on_data_eq:
  "on_data E tools buffer data =
     (remainder (buffer @ Buffer_toString data),
      process_messages E tools (complete_lines (buffer @ Buffer_toString data)))"
  by (simp add: on_data_def Let_def remainder_def complete_lines_def split_newline_no_newline
      process_messages_def)

lemma receive_eq:
  "\<not> includes_newline buffer \<Longrightarrow>
   receive E tools (buffer, written) chunks =
     (remainder (buffer @ received_text chunks),
      written @ process_messages E tools (complete_lines (buffer @ received_text chunks)))"
proof (induction chunks arbitrary: buffer written)
  case Nil
  then show ?case
    by (simp add: received_text_def remainder_def complete_lines_def split_newline_no_newline
        process_messages_def)
next
  case (Cons chunk chunks)
  let ?text = "Buffer_toString chunk"
  have "receive E tools (buffer, written) (chunk # chunks) =
          receive E tools (remainder (buffer @ ?text),
            written @ process_messages E tools (complete_lines (buffer @ ?text))) chunks"
    by (simp add: on_data_eq)
  also have "\<dots> = (remainder (remainder (buffer @ ?text) @ received_text chunks),
      (written @ process_messages E tools (complete_lines (buffer @ ?text)))
        @ process_messages E tools (complete_lines (remainder (buffer @ ?text) @ received_text chunks)))"
    by (rule Cons.IH [OF remainder_no_newline])
  also have "\<dots> = (remainder (buffer @ received_text (chunk # chunks)),
      written @ process_messages E tools (complete_lines (buffer @ received_text (chunk # chunks))))"
    using remainder_append [of "buffer @ ?text" "received_text chunks"]
      complete_lines_append [of "buffer @ ?text" "received_text chunks"]
    by (simp add: process_messages_append received_text_def)
  finally show ?case .
qed

lemma connection_eq:
  "connection E tools chunks =
     (remainder (received_text chunks),
      process_messages E tools (complete_lines (received_text chunks)))"
  using receive_eq [of "[]" E tools "[]" chunks]
  by (simp add: connection_def includes_newline_def)

subsection \<open>Suspended runs of the handler\<close>

lemma advance_None:
  "advance E msgs = (lines, None) \<Longrightarrow>
   process_messages E tools msgs = lines \<and> suspensions E msgs = 0"
proof (induction msgs arbitrary: lines)
  case Nil
  then show ?case by (simp add: process_messages_def suspensions_def)
next
  case (Cons msg msgs)
  show ?case
  proof (cases "trim msg = []")
    case True
    with Cons show ?thesis
      by (simp add: process_messages_def process_message_def suspensions_def)
  next
    case False
    show ?thesis
    proof (cases "JSON_parse E msg")
      case None
      obtain ls r where a: "advance E msgs = (ls, r)" by (cases "advance E msgs")
      with Cons.prems False None have "r = None" "lines = response_line E invalid_message_format # ls"
        by auto
      with Cons.IH [of ls] a False None show ?thesis
        by (simp add: process_messages_def process_message_def respond_def suspensions_def)
    next
      case (Some request)
      with Cons.prems False show ?thesis by simp
    qed
  qed
qed

lemma advance_Some:
  "advance E msgs = (lines, Some (request, rest)) \<Longrightarrow>
   process_messages E tools msgs
     = lines @ settle_line E tools request # process_messages E tools rest
   \<and> suspensions E msgs = Suc (suspensions E rest)"
proof (induction msgs arbitrary: lines)
  case Nil
  then show ?case by simp
next
  case (Cons msg msgs)
  show ?case
  proof (cases "trim msg = []")
    case True
    with Cons show ?thesis
      by (simp add: process_messages_def process_message_def suspensions_def)
  next
    case False
    show ?thesis
    proof (cases "JSON_parse E msg")
      case None
      obtain ls r where a: "advance E msgs = (ls, r)" by (cases "advance E msgs")
      with Cons.prems False None have "r = Some (request, rest)"
        "lines = response_line E invalid_message_format # ls"
        by auto
      with Cons.IH [of ls] a False None show ?thesis
        by (simp add: process_messages_def process_message_def respond_def suspensions_def)
    next
      case (Some rq)
      with Cons.prems False show ?thesis
        by (auto simp: process_messages_def process_message_def respond_def suspensions_def)
    qed
  qed
qed

lemma settle_to_end:
  "run_events E tools (buffer, [(request, rest)], written)
     (replicate (Suc (suspensions E rest)) (Settled 0))
   = Some (buffer, [], written @ settle_line E tools request # process_messages E tools rest)"
proof (induction n \<equiv> "suspensions E rest" arbitrary: request rest written)
  case 0
  obtain ls r where a: "advance E rest = (ls, r)" by (cases "advance E rest")
  show ?case
  proof (cases r)
    case None
    with a advance_None [of E rest ls tools] 0 show ?thesis by simp
  next
    case (Some run)
    obtain rq rest' where "run = (rq, rest')" by (cases run)
    with Some a advance_Some [of E rest ls rq rest' tools] 0 show ?thesis by simp
  qed
next
  case (Suc n)
  obtain ls r where a: "advance E rest = (ls, r)" by (cases "advance E rest")
  show ?case
  proof (cases r)
    case None
    with a advance_None [of E rest ls tools] Suc.hyps(2) show ?thesis by simp
  next
    case (Some run)
    obtain rq rest' where run: "run = (rq, rest')" by (cases run)
    from Some run a advance_Some [of E rest ls rq rest' tools]
    have p: "process_messages E tools rest = ls @ settle_line E tools rq # process_messages E tools rest'"
      and s: "suspensions E rest = Suc (suspensions E rest')" by auto
    from s Suc.hyps(2) have n: "n = suspensions E rest'" by simp
    from Suc.hyps(1) [OF n, of rq "written @ settle_line E tools request # ls"]
    show ?thesis using a Some run p s by simp
  qed
qed

theorem run_to_end_is_a_schedule:
  "run_events E tools (buffer, [], written)
     (Data data # replicate (suspensions E (complete_lines (buffer @ Buffer_toString data)))
                    (Settled 0))
   = Some (fst (on_data E tools buffer data), [], written @ snd (on_data E tools buffer data))"
proof (cases "includes_newline (buffer @ Buffer_toString data)")
  case False
  then show ?thesis
    by (simp add: on_data_def complete_lines_def split_newline_no_newline suspensions_def)
next
  case True
  let ?msgs = "complete_lines (buffer @ Buffer_toString data)"
  obtain ls r where a: "advance E ?msgs = (ls, r)" by (cases "advance E ?msgs")
  show ?thesis
  proof (cases r)
    case None
    with a advance_None [of E ?msgs ls tools] True show ?thesis
      by (simp add: on_data_def complete_lines_def Let_def)
  next
    case (Some run)
    obtain rq rest where run: "run = (rq, rest)" by (cases run)
    from Some run a advance_Some [of E ?msgs ls rq rest tools]
    have p: "process_messages E tools ?msgs = ls @ settle_line E tools rq # process_messages E tools rest"
      and s: "suspensions E ?msgs = Suc (suspensions E rest)" by auto
    from settle_to_end [of E tools "remainder (buffer @ Buffer_toString data)" rq rest "written @ ls"]
    show ?thesis using a Some run p s True
      by (simp add: on_data_def complete_lines_def remainder_def Let_def)
  qed
qed

lemma utf8_text_ascii: "\<forall>c \<in> set s. byte c < 0x80 \<Longrightarrow> utf8_text s = s"
  by (induction s) auto

subsection \<open>The framer\<close>

text \<open>
  When every run of the handler reaches its end before the next chunk is taken
  (\<open>run_to_end_is_a_schedule\<close>: one of the orders in which the engine can work, and the
  only one as long as no tool waits for the file system), the lines written to the
  socket are the responses to the complete lines of the text received, one response
  for each line that is not blank, in the order of the lines, and nothing for a line
  that is empty or holds white space only. For a line that \<open>JSON.parse\<close> accepts, that
  one response is the serialised result of \<open>handleMessage\<close> on the parsed request.
\<close>

theorem one_response_per_request_line_in_order:
  "snd (connection E tools chunks) =
     map (respond E tools) (filter (\<lambda>msg. trim msg \<noteq> []) (complete_lines (received_text chunks)))
   \<and> (\<forall>msg request. JSON_parse E msg = Some request \<longrightarrow>
        (\<exists>response. handleMessage E tools request = Inr response
                    \<and> respond E tools msg = response_line E response))"
proof -
  have resolves: "\<exists>response. handleMessage E tools request = Inr response" for request
    by (simp add: handleMessage_def split: sum.splits)
  have "\<exists>response. handleMessage E tools request = Inr response
                  \<and> respond E tools msg = response_line E response"
    if "JSON_parse E msg = Some request" for msg request
  proof -
    from resolves obtain response where "handleMessage E tools request = Inr response" by blast
    with that show ?thesis by (simp add: respond_def settle_line_def)
  qed
  then show ?thesis
    by (simp add: connection_eq process_messages_filter)
qed

theorem one_response_per_request_line_witness:
  "snd (connection example_engine example_tools
          [''{\"tool\":\"echo\",\"params\":{\"message\":\"a\"}}'' @ [newline] @ ''  '' @ [newline],
           [newline] @ ''{\"tool\":\"echo\",\"params\":{\"message\":\"b\"}}'' @ [newline]])
     = [''{\"message\":\"a\"}'' @ [newline], ''{\"message\":\"b\"}'' @ [newline]]
   \<and> JSON_parse example_engine ''{\"tool\":\"echo\",\"params\":{\"message\":\"a\"}}''
       = Some (JObj [(''tool'', JStr ''echo''), (''params'', JObj [(''message'', JStr ''a'')])])
   \<and> handleMessage example_engine example_tools
         (JObj [(''tool'', JStr ''echo''), (''params'', JObj [(''message'', JStr ''a'')])])
       = Inr (JObj [(''message'', JStr ''a'')])
   \<and> respond example_engine example_tools ''{\"tool\":\"echo\",\"params\":{\"message\":\"a\"}}''
       = response_line example_engine (JObj [(''message'', JStr ''a'')])"
proof -
  have p: "JSON_parse example_engine ''{\"tool\":\"echo\",\"params\":{\"message\":\"a\"}}''
       = Some (JObj [(''tool'', JStr ''echo''), (''params'', JObj [(''message'', JStr ''a'')])])"
    by (simp add: example_engine_def example_parse_def)
  have h: "handleMessage example_engine example_tools
         (JObj [(''tool'', JStr ''echo''), (''params'', JObj [(''message'', JStr ''a'')])])
       = Inr (JObj [(''message'', JStr ''a'')])"
    by (simp add: handleMessage_def handleMessage_try_def example_tools_def registerTool_def
        fileContent_def echo_def echo_execute_def)
  have w: "snd (connection example_engine example_tools
          [''{\"tool\":\"echo\",\"params\":{\"message\":\"a\"}}'' @ [newline] @ ''  '' @ [newline],
           [newline] @ ''{\"tool\":\"echo\",\"params\":{\"message\":\"b\"}}'' @ [newline]])
     = [''{\"message\":\"a\"}'' @ [newline], ''{\"message\":\"b\"}'' @ [newline]]"
    by (simp add: connection_def on_data_def Buffer_toString_def split_newline_def includes_newline_def newline_def
        process_messages_def process_message_def trim_def ws1_def ws2_def ws3_def byte_def respond_def settle_line_def
        response_line_def example_engine_def example_parse_def example_stringify_def
        handleMessage_def handleMessage_try_def example_tools_def registerTool_def
        fileContent_def echo_def echo_execute_def)
  from one_response_per_request_line_in_order
      [of example_engine example_tools "[]", THEN conjunct2, rule_format, OF p]
  obtain response where
    "handleMessage example_engine example_tools
         (JObj [(''tool'', JStr ''echo''), (''params'', JObj [(''message'', JStr ''a'')])])
       = Inr response"
    "respond example_engine example_tools ''{\"tool\":\"echo\",\"params\":{\"message\":\"a\"}}''
       = response_line example_engine response"
    by blast
  with h have "respond example_engine example_tools ''{\"tool\":\"echo\",\"params\":{\"message\":\"a\"}}''
       = response_line example_engine (JObj [(''message'', JStr ''a'')])"
    by simp
  with p h w show ?thesis by simp
qed


text \<open>
  C1. The order of the responses does not hold on every connection. The first chunk
  asks the fileContent tool to read a file, and the handler is suspended at \<open>await\<close>
  while the file system works; the second chunk arrives in the meantime, and its run
  of the handler answers the echo request at once; the response to the first request
  is written when the file has been read. The socket then holds the response to the
  second line before the response to the first. (Handled one after the other, the same
  two chunks are answered in the order of the lines.) Each line still gets exactly one
  response.
\<close>

theorem response_overtakes_earlier_request:
  "awaits_io example_engine example_tools
     (JObj [(''tool'', JStr ''fileContent''),
            (''params'', JObj [(''operation'', JStr ''read''), (''path'', JStr ''test.txt'')])])
   \<and> run_events example_engine example_tools ([], [], [])
        [Data (''{\"tool\":\"fileContent\",\"params\":{\"operation\":\"read\",\"path\":\"test.txt\"}}''
                 @ [newline]),
         Data (''{\"tool\":\"echo\",\"params\":{\"message\":\"hi\"}}'' @ [newline]),
         Settled 1,
         Settled 0]
       = Some ([], [],
               [''{\"message\":\"hi\"}'' @ [newline],
                ''{\"content\":\"Hello from MCP Server!\"}'' @ [newline]])
   \<and> connection example_engine example_tools
        [''{\"tool\":\"fileContent\",\"params\":{\"operation\":\"read\",\"path\":\"test.txt\"}}''
           @ [newline],
         ''{\"tool\":\"echo\",\"params\":{\"message\":\"hi\"}}'' @ [newline]]
       = ([], [''{\"content\":\"Hello from MCP Server!\"}'' @ [newline],
               ''{\"message\":\"hi\"}'' @ [newline]])"
  by (simp add: awaits_io_def connection_def on_data_def Buffer_toString_def byte_def
      split_newline_def includes_newline_def newline_def
      process_messages_def process_message_def trim_def ws1_def ws2_def ws3_def
      respond_def settle_line_def response_line_def
      example_engine_def example_parse_def example_stringify_def replacement_def
      handleMessage_def handleMessage_try_def example_tools_def registerTool_def
      fileContent_def fileContent_execute_def fileContent_try_def echo_def echo_execute_def)

text \<open>
  What holds of re-chunking: the buffer and the lines written depend on the chunks
  only through the text they decode to, so two sequences of chunks that decode to the
  same text leave the same buffer and the same lines; streams of ASCII bytes, as in the
  examples of the specification, decode to themselves however they are cut.
\<close>

lemma received_text_ascii:
  "\<forall>c \<in> set (concat chunks). byte c < 0x80 \<Longrightarrow> received_text chunks = concat chunks"
  by (induction chunks) (simp_all add: received_text_def Buffer_toString_def utf8_text_ascii)

lemma rechunking_of_decoded_text:
  "received_text chunks = received_text chunks' \<Longrightarrow>
   connection E tools chunks = connection E tools chunks'"
  by (simp add: connection_eq)

lemma rechunking_of_ascii_bytes:
  assumes "\<forall>c \<in> set (concat chunks). byte c < 0x80" and "concat chunks = concat chunks'"
  shows "connection E tools chunks = connection E tools chunks'"
proof -
  from assms have "\<forall>c \<in> set (concat chunks'). byte c < 0x80" by simp
  with assms received_text_ascii [of chunks] received_text_ascii [of chunks']
  show ?thesis by (simp add: connection_eq)
qed

theorem rechunking_examples:
  "connection example_engine example_tools
     [''{\"tool\":\"echo\",\"par'', ''ams\":{\"message\":\"hi\"}}'' @ [newline]]
     = ([], [''{\"message\":\"hi\"}'' @ [newline]])
   \<and> connection example_engine example_tools
        [''{\"tool\":\"echo\",\"params\":{\"message\":\"hi\"}}'' @ [newline]]
       = ([], [''{\"message\":\"hi\"}'' @ [newline]])
   \<and> connection example_engine example_tools
        [''{\"tool\":\"echo\",\"params\":{\"message\":\"a\"}}'' @ [newline]
           @ ''{\"tool\":\"echo\",\"params\":{\"message\":\"b\"}}'' @ [newline]]
       = ([], [''{\"message\":\"a\"}'' @ [newline], ''{\"message\":\"b\"}'' @ [newline]])"
  by (simp add: connection_def on_data_def Buffer_toString_def byte_def
      split_newline_def includes_newline_def newline_def
      process_messages_def process_message_def trim_def ws1_def ws2_def ws3_def
      respond_def settle_line_def response_line_def
      example_engine_def example_parse_def example_stringify_def replacement_def
      handleMessage_def handleMessage_try_def example_tools_def registerTool_def
      fileContent_def echo_def echo_execute_def)

text \<open>
  C2. The framer is not invariant under every re-chunking of the bytes: each chunk is
  decoded on its own, so a character whose bytes fall into two chunks is lost. The
  same bytes, a request to echo a message of one character (U+00E9, the bytes C3 A9), are
  answered with the message when they arrive in one chunk, and with two replacement
  characters (U+FFFD, the bytes EF BF BD each) in its place when the chunk boundary
  falls between the two bytes.
\<close>

theorem split_character_changes_the_response:
  "concat [''{\"tool\":\"echo\",\"params\":{\"message\":\"'' @ [CHR 0xC3],
           [CHR 0xA9] @ ''\"}}'' @ [newline]]
     = concat [''{\"tool\":\"echo\",\"params\":{\"message\":\"'' @ [CHR 0xC3, CHR 0xA9] @ ''\"}}''
                 @ [newline]]
   \<and> connection example_engine example_tools
        [''{\"tool\":\"echo\",\"params\":{\"message\":\"'' @ [CHR 0xC3],
         [CHR 0xA9] @ ''\"}}'' @ [newline]]
       = ([], [''{\"message\":\"'' @ [CHR 0xEF, CHR 0xBF, CHR 0xBD, CHR 0xEF, CHR 0xBF, CHR 0xBD]
                 @ ''\"}'' @ [newline]])
   \<and> connection example_engine example_tools
        [''{\"tool\":\"echo\",\"params\":{\"message\":\"'' @ [CHR 0xC3, CHR 0xA9] @ ''\"}}''
           @ [newline]]
       = ([], [''{\"message\":\"'' @ [CHR 0xC3, CHR 0xA9] @ ''\"}'' @ [newline]])"
  by (simp add: connection_def on_data_def Buffer_toString_def byte_def
      split_newline_def includes_newline_def newline_def
      process_messages_def process_message_def trim_def ws1_def ws2_def ws3_def
      respond_def settle_line_def response_line_def
      example_engine_def example_parse_def example_stringify_def replacement_def
      handleMessage_def handleMessage_try_def example_tools_def registerTool_def
      fileContent_def echo_def echo_execute_def)




subsection \<open>The dispatcher\<close>




text \<open>
  A line that parses to a JSON object without a \<open>tool\<close> field is answered with
  exactly one line, the envelope \<open>{"error": "Tool undefined not found"}\<close>, as long as
  \<open>Object.prototype\<close> holds no property \<open>tool\<close>: the lookup of \<open>undefined\<close> in the registry
  finds nothing, whatever is registered. This is the dispatch error of an unknown
  tool, not the invalid-format envelope.
\<close>

theorem missing_tool_field_reported_as_unknown_tool:
  assumes "JSON_parse E msg = Some (JObj kvs)" and "map_of kvs ''tool'' = None"
    and "map_of (prototype_props E Object_prototype) ''tool'' = None"
    and "trim msg \<noteq> []"
  shows "handleMessage E tools (JObj kvs) = Inr (JObj [(''error'', JStr ''Tool undefined not found'')])
         \<and> process_message E tools msg
             = [response_line E (JObj [(''error'', JStr ''Tool undefined not found'')])]
         \<and> JObj [(''error'', JStr ''Tool undefined not found'')] \<noteq> invalid_message_format"
proof -
  have h: "handleMessage E tools (JObj kvs)
             = Inr (JObj [(''error'', JStr ''Tool undefined not found'')])"
    using assms(2,3)
    by (simp add: handleMessage_def handleMessage_try_def error_envelope_def get_prop_def
        find_slot_def)
  with assms show ?thesis
    by (simp add: process_message_def respond_def settle_line_def invalid_message_format_def error_envelope_def)
qed

theorem missing_tool_field_witness:
  "JSON_parse example_engine ''{}'' = Some (JObj [])
   \<and> map_of ([] :: (string \<times> jsval) list) ''tool'' = None
   \<and> map_of (prototype_props example_engine Object_prototype) ''tool'' = None
   \<and> trim ''{}'' \<noteq> []
   \<and> process_message example_engine example_tools ''{}''
       = [''{\"error\":\"Tool undefined not found\"}'' @ [newline]]
   \<and> JSON_parse example_engine ''{\"params\":{}}'' = Some (JObj [(''params'', JObj [])])
   \<and> map_of [(''params'', JObj [])] ''tool'' = None
   \<and> trim ''{\"params\":{}}'' \<noteq> []
   \<and> process_message example_engine example_tools ''{\"params\":{}}''
       = [''{\"error\":\"Tool undefined not found\"}'' @ [newline]]"
proof -
  have p1: "JSON_parse example_engine ''{}'' = Some (JObj [])"
    and p2: "JSON_parse example_engine ''{\"params\":{}}'' = Some (JObj [(''params'', JObj [])])"
    by (simp_all add: example_engine_def example_parse_def)
  have t1: "trim ''{}'' \<noteq> []" and t2: "trim ''{\"params\":{}}'' \<noteq> []"
    by (simp_all add: trim_def ws1_def ws2_def ws3_def byte_def)
  have m1: "map_of ([] :: (string \<times> jsval) list) ''tool'' = None"
    and m2: "map_of [(''params'', JObj [])] ''tool'' = None"
    by simp_all
  have i: "map_of (prototype_props example_engine Object_prototype) ''tool'' = None"
    by (simp add: example_engine_def pristine_Object_prototype_def)
  have l: "response_line example_engine (JObj [(''error'', JStr ''Tool undefined not found'')])
             = ''{\"error\":\"Tool undefined not found\"}'' @ [newline]"
    by (simp add: response_line_def example_engine_def example_stringify_def)
  from missing_tool_field_reported_as_unknown_tool [OF p1 m1 i t1, of example_tools]
    missing_tool_field_reported_as_unknown_tool [OF p2 m2 i t2, of example_tools]
    p1 p2 t1 t2 m1 m2 i l
  show ?thesis by simp
qed

text \<open>The store of the example engine, and the run of the jsonProcess tool on the
  data \<open>{}\<close> with the one transformation that adds \<open>"echo"\<close> under
  \<open>__proto__.tool\<close>: the navigation follows \<open>__proto__\<close> to \<open>Object.prototype\<close>, and the
  property is added there.\<close>

lemma example_store:
  "realm_store example_engine =
     [HProto (map (\<lambda>(k, s). (k, case s of Value (JFun f) \<Rightarrow> Value (HFun f) | _ \<Rightarrow> Proto_accessor))
                pristine_Object_prototype),
      HProto [], HProto [], HProto [], HProto [], HProto []]"
  by (simp add: realm_store_def example_engine_def pristine_Object_prototype_def)

lemma pollution_run:
  "jsonProcess_run example_engine ''transform'' (JObj []) JUndefined (Some add_tool_to_prototype)
   = (Returns (JObj [(''result'', JObj [])]),
      [HProto (map (\<lambda>(k, s). (k, case s of Value (JFun f) \<Rightarrow> Value (HFun f) | _ \<Rightarrow> Proto_accessor))
                pristine_Object_prototype @ [(''tool'', Value (HStr ''echo''))]),
      HProto [], HProto [], HProto [], HProto [], HProto [], HObject [], HObject []])"
  by (simp add: jsonProcess_run_def example_store add_tool_to_prototype_def transform_def
      deep_clone_def toJSON_callable_def proto_entries_def pristine_Object_prototype_def
      apply_transformation_def apply_at_def h_get_def h_find_def h_inherited_def
      h_set_def put_field_def insert_field_def array_index_def index_of_key_def digit_of_def
      builtin_at_def Let_def)

lemma polluted_Object_prototype:
  "prototype_props polluted_engine Object_prototype
     = pristine_Object_prototype @ [(''tool'', Value (JStr ''echo''))]"
  by (simp add: polluted_engine_def engine_after_def pollution_run realm_props_def
      proto_entries_def pristine_Object_prototype_def)

text \<open>
  C9. An object without a \<open>tool\<close> field is not always answered with
  \<open>{"error": "Tool undefined not found"}\<close>: \<open>const { tool, params } = message\<close> reads
  inherited properties, and a request can add a property to \<open>Object.prototype\<close>. After
  the request that adds \<open>"echo"\<close> under the path \<open>__proto__.tool\<close> (it is answered with
  the result \<open>{}\<close>), every object inherits this \<open>tool\<close>: the request \<open>{}\<close> is dispatched to
  the echo tool, which throws on its missing parameters, and the request
  \<open>{"params": {}}\<close> is answered by the echo tool. Before that request, \<open>{}\<close> is answered
  with the unknown-tool envelope.
\<close>

theorem inherited_tool_is_dispatched:
  "jsonProcess_execute example_engine ''transform'' (JObj []) JUndefined
      (Some add_tool_to_prototype)
     = Returns (JObj [(''result'', JObj [])])
   \<and> prototype_props polluted_engine Object_prototype
       = pristine_Object_prototype @ [(''tool'', Value (JStr ''echo''))]
   \<and> handleMessage polluted_engine (server_tools polluted_engine) (JObj [])
       = Inr (JObj [(''error'', JStr (engine_message polluted_engine TypeError))])
   \<and> handleMessage polluted_engine (server_tools polluted_engine) (JObj [(''params'', JObj [])])
       = Inr (JObj [(''message'', JUndefined)])
   \<and> handleMessage example_engine (server_tools example_engine) (JObj [])
       = Inr (JObj [(''error'', JStr ''Tool undefined not found'')])"
proof -
  have t: "get_prop polluted_engine (JObj kvs) ''tool'' = JStr ''echo''"
    if "map_of kvs ''tool'' = None" for kvs
    using that
    by (simp add: get_prop_def find_slot_def polluted_Object_prototype
        pristine_Object_prototype_def)
  have m: "get_prop polluted_engine (JObj []) ''params'' = JUndefined"
    "get_prop polluted_engine (JObj []) ''message'' = JUndefined"
    by (simp_all add: get_prop_def find_slot_def polluted_Object_prototype
        pristine_Object_prototype_def)
  have e: "server_tools polluted_engine ''echo'' = Some (echo polluted_engine)"
    by (simp add: server_tools_def registerTool_def fileContent_def echo_def)
  have 1: "handleMessage polluted_engine (server_tools polluted_engine) (JObj [])
       = Inr (JObj [(''error'', JStr (engine_message polluted_engine TypeError))])"
    using t [of "[]"] m(1) e
    by (simp add: handleMessage_def handleMessage_try_def error_envelope_def echo_def
        echo_execute_def)
  have 2: "handleMessage polluted_engine (server_tools polluted_engine) (JObj [(''params'', JObj [])])
       = Inr (JObj [(''message'', JUndefined)])"
    using t [of "[(''params'', JObj [])]"] m(2) e
    by (simp add: handleMessage_def handleMessage_try_def error_envelope_def echo_def
        echo_execute_def)
  have 3: "handleMessage example_engine (server_tools example_engine) (JObj [])
       = Inr (JObj [(''error'', JStr ''Tool undefined not found'')])"
    by (simp add: handleMessage_def handleMessage_try_def error_envelope_def get_prop_def
        find_slot_def example_engine_def pristine_Object_prototype_def)
  from 1 2 3 polluted_Object_prototype show ?thesis
    by (simp add: jsonProcess_execute_def pollution_run)
qed

subsection \<open>The calculate tool\<close>

lemma bit_length_bounds: "0 < n \<Longrightarrow> 2 ^ (bit_length n - 1) \<le> n \<and> n < 2 ^ bit_length n"
proof (induction n rule: bit_length.induct)
  case (1 n)
  show ?case
  proof (cases "n div 2 = 0")
    case True
    with 1(2) have "n = 1" by (auto simp: div_eq_0_iff)
    then show ?thesis by (simp add: bit_length.simps)
  next
    case False
    with 1 have ih: "2 ^ (bit_length (n div 2) - 1) \<le> n div 2 \<and> n div 2 < 2 ^ bit_length (n div 2)"
      by simp
    have pos: "0 < bit_length (n div 2)" using False by (simp add: bit_length.simps)
    have b: "bit_length n = Suc (bit_length (n div 2))" using 1(2) by (simp add: bit_length.simps)
    from ih have "2 * 2 ^ (bit_length (n div 2) - 1) \<le> n" by linarith
    moreover have "2 * (2::nat) ^ (bit_length (n div 2) - 1) = 2 ^ bit_length (n div 2)"
      using pos by (cases "bit_length (n div 2)") simp_all
    moreover from ih have "n < 2 * 2 ^ bit_length (n div 2)" by linarith
    ultimately show ?thesis using b by simp
  qed
qed

lemma round_half_even_int: "round_half_even (of_int i) = i"
  by (simp add: round_half_even_def)

lemma round_double_int:
  assumes "\<bar>i\<bar> \<le> 2 ^ 53"
  shows "round_double (of_int i) = Finite (of_int i)"
proof (cases "i = 0")
  case True
  then show ?thesis by (simp add: round_double_def)
next
  case False
  define n where "n = nat \<bar>i\<bar>"
  have n: "0 < n" "int n = \<bar>i\<bar>" using False by (simp_all add: n_def)
  define b where "b = bit_length n"
  from bit_length_bounds [OF n(1)] have bb: "2 ^ (b - 1) \<le> n" "n < 2 ^ b" by (simp_all add: b_def)
  have bpos: "0 < b" using n(1) by (simp add: b_def bit_length.simps)
  have "n \<le> 2 ^ 53" using assms by (simp add: n_def nat_le_iff)
  have b54: "b \<le> 54"
  proof (rule ccontr)
    assume "\<not> b \<le> 54"
    then have "55 \<le> b" by simp
    then have "(2::nat) ^ 54 \<le> 2 ^ (b - 1)" by (intro power_increasing) auto
    with bb(1) \<open>n \<le> 2 ^ 53\<close> show False by simp
  qed
  have bin: "binade \<bar>real_of_int i\<bar> = int b - 1"
  proof -
    have "1 \<le> \<bar>i\<bar>" using False by linarith
    then have "1 \<le> \<bar>real_of_int i\<bar>" by (metis of_int_abs of_int_1_le_iff)
    moreover have "nat \<lfloor>\<bar>real_of_int i\<bar>\<rfloor> = n" by (simp add: n_def flip: of_int_abs)
    ultimately show ?thesis by (simp add: binade_def b_def)
  qed
  define e where "e = max (int b - 1 - 52) (- 1074)"
  have e: "e = int b - 53" using bpos by (simp add: e_def)
  show ?thesis
  proof (cases "b = 54")
    case True
    with bb \<open>n \<le> 2 ^ 53\<close> have "n = 2 ^ 53" by simp
    then have "\<bar>i\<bar> = 2 ^ 53" using n(2) by simp
    then consider "i = 2 ^ 53" | "i = - (2 ^ 53)" by linarith
    then show ?thesis
      by cases (simp_all add: round_double_def binade_def bit_length.simps round_half_even_def
                 pow2_def Let_def)
  next
    case False
    with b54 have le: "b \<le> 53" by simp
    then have e0: "e \<le> 0" by (simp add: e)
    have p: "pow2 e = 1 / 2 ^ (53 - b)" using le bpos e
      by (auto simp: pow2_def nat_diff_distrib' )
    have q: "\<bar>real_of_int i\<bar> / pow2 e = of_int (\<bar>i\<bar> * 2 ^ (53 - b))" by (simp add: p)
    have m: "round_half_even (\<bar>real_of_int i\<bar> / pow2 e) = \<bar>i\<bar> * 2 ^ (53 - b)"
      unfolding q by (rule round_half_even_int)
    have val: "real_of_int (\<bar>i\<bar> * 2 ^ (53 - b)) * pow2 e = \<bar>real_of_int i\<bar>" by (simp add: p)
    have small: "\<not> (2::real) ^ 1024 \<le> \<bar>real_of_int i\<bar>"
    proof -
      have "real_of_int \<bar>i\<bar> \<le> real_of_int (2 ^ 53)" using assms by (simp only: of_int_le_iff)
      then have "\<bar>real_of_int i\<bar> \<le> 2 ^ 53" by simp
      moreover have "(2::real) ^ 53 < 2 ^ 1024" by simp
      ultimately show ?thesis by linarith
    qed
    have ne: "real_of_int i \<noteq> 0" using \<open>i \<noteq> 0\<close> by simp
    have sg: "sgn (real_of_int i) * \<bar>real_of_int i\<bar> = real_of_int i" by (simp add: sgn_mult_abs)
    have "round_double (real_of_int i)
            = (if 2 ^ 1024 \<le> real_of_int (\<bar>i\<bar> * 2 ^ (53 - b)) * pow2 e
               then (if 0 < real_of_int i then PosInf else NegInf)
               else Finite (sgn (real_of_int i) * real_of_int (\<bar>i\<bar> * 2 ^ (53 - b)) * pow2 e))"
      unfolding round_double_def Let_def bin e_def [symmetric] m using ne by (simp only: if_False)
    also have "\<dots> = Finite (sgn (real_of_int i) * (real_of_int (\<bar>i\<bar> * 2 ^ (53 - b)) * pow2 e))"
      using small by (simp only: val if_False mult.assoc)
    also have "\<dots> = Finite (real_of_int i)" by (simp only: val sg)
    finally show ?thesis .
  qed
qed

text \<open>
  C5. For all numbers \<open>a\<close> and \<open>b\<close>, the calculate tool returns \<open>{result: a + b}\<close>,
  \<open>{result: a - b}\<close> and \<open>{result: a * b}\<close> for the operations add, subtract and
  multiply; for divide it returns \<open>{result: a / b}\<close> when \<open>b\<close> is not zero and fails
  with the message \<open>Division by zero\<close> when it is; and for every other operation string
  it fails with the message \<open>Invalid operation\<close>. The sum, difference, product and
  quotient are those of the engine's numbers: on finite numbers, the double nearest
  to the exact result, which is the exact result for every integer up to \<open>2^53\<close> in
  magnitude.
\<close>

theorem calculate_contract:
  "calculate ''add'' a b = Inr (JObj [(''result'', JNum (number_add a b))])
   \<and> calculate ''subtract'' a b = Inr (JObj [(''result'', JNum (number_subtract a b))])
   \<and> calculate ''multiply'' a b = Inr (JObj [(''result'', JNum (number_multiply a b))])
   \<and> (b \<noteq> Finite 0 \<longrightarrow>
        calculate ''divide'' a b = Inr (JObj [(''result'', JNum (number_divide a b))]))
   \<and> calculate ''divide'' a (Finite 0) = Inl (Error ''Division by zero'')
   \<and> (op \<noteq> ''add'' \<and> op \<noteq> ''subtract'' \<and> op \<noteq> ''multiply'' \<and> op \<noteq> ''divide'' \<longrightarrow>
        calculate op a b = Inl (Error ''Invalid operation''))
   \<and> number_add (Finite x) (Finite y) = round_double (x + y)
   \<and> number_subtract (Finite x) (Finite y) = round_double (x - y)
   \<and> number_multiply (Finite x) (Finite y) = round_double (x * y)
   \<and> (y \<noteq> 0 \<longrightarrow> number_divide (Finite x) (Finite y) = round_double (x / y))
   \<and> (\<bar>i\<bar> \<le> 2 ^ 53 \<longrightarrow> round_double (of_int i) = Finite (of_int i))"
  by (simp add: calculate_def number_subtract_def round_double_int)

theorem calculate_contract_witness:
  "Finite 3 \<noteq> Finite 0
   \<and> calculate ''divide'' (Finite 6) (Finite 3) = Inr (JObj [(''result'', JNum (Finite 2))])
   \<and> ''modulo'' \<noteq> ''add'' \<and> ''modulo'' \<noteq> ''subtract'' \<and> ''modulo'' \<noteq> ''multiply''
   \<and> ''modulo'' \<noteq> ''divide''
   \<and> calculate ''modulo'' (Finite 6) (Finite 3) = Inl (Error ''Invalid operation'')
   \<and> calculate ''divide'' (Finite 1) (Finite 0) = Inl (Error ''Division by zero'')
   \<and> \<bar>2::int\<bar> \<le> 2 ^ 53
   \<and> calculate ''add'' (Finite 9007199254740992) (Finite 1)
       = Inr (JObj [(''result'', JNum (Finite 9007199254740992))])
   \<and> calculate ''multiply'' (Finite (2 ^ 1023)) (Finite 2) = Inr (JObj [(''result'', JNum PosInf)])
   \<and> calculate ''subtract'' PosInf PosInf = Inr (JObj [(''result'', JNum NaN)])"
proof -
  have r: "round_double 2 = Finite 2"
    using calculate_contract [of _ _ _ _ _ 2] by simp
  have t: "round_double (9007199254740992 + 1) = Finite 9007199254740992"
    by (simp add: round_double_def binade_def bit_length.simps round_half_even_def pow2_def Let_def)
  have u: "round_double (2 ^ 1023 * 2) = PosInf"
    by (simp add: round_double_def binade_def bit_length.simps round_half_even_def pow2_def Let_def)
  have d: "calculate ''divide'' (Finite 6) (Finite 3) = Inr (JObj [(''result'', JNum (Finite 2))])"
    using calculate_contract [of "Finite 6" "Finite 3" _ 6 3] r by simp
  have m: "calculate ''modulo'' (Finite 6) (Finite 3) = Inl (Error ''Invalid operation'')"
    using calculate_contract [of "Finite 6" "Finite 3" "''modulo''"] by simp
  have z: "calculate ''divide'' (Finite 1) (Finite 0) = Inl (Error ''Division by zero'')"
    using calculate_contract [of "Finite 1"] by simp
  have a: "calculate ''add'' (Finite 9007199254740992) (Finite 1)
       = Inr (JObj [(''result'', JNum (Finite 9007199254740992))])"
    using calculate_contract [of "Finite 9007199254740992" "Finite 1" _ 9007199254740992 1] t
    by simp
  have p: "calculate ''multiply'' (Finite (2 ^ 1023)) (Finite 2)
       = Inr (JObj [(''result'', JNum PosInf)])"
    using calculate_contract [of "Finite (2 ^ 1023)" "Finite 2" _ "2 ^ 1023" 2] u
    by (simp only:)
  have s: "calculate ''subtract'' PosInf PosInf = Inr (JObj [(''result'', JNum NaN)])"
    using calculate_contract [of PosInf PosInf] by (simp add: number_subtract_def)
  from d m z a p s show ?thesis by simp
qed

subsection \<open>Validation\<close>

lemma is_object_iff: "is_object v \<longleftrightarrow> truthy v \<and> typeof v = ''object''"
  by (cases v) (simp_all add: is_object_def)

lemma matches_JStr: "matches v (JStr s) \<longleftrightarrow> typeof v = s"
  by (auto intro: matches.intros elim: matches.cases)

lemma matches_JObj:
  "matches v (JObj entries) \<longleftrightarrow>
     is_object v \<and> (\<forall>(k, sub) \<in> set entries. matches (field v k) sub)"
  by (auto intro: matches.intros elim: matches.cases)

lemma json_map_of: "json_entries kvs \<Longrightarrow> map_of kvs k = Some x \<Longrightarrow> json x"
  by (induction kvs) (auto split: if_splits)

lemma json_nth: "json_list xs \<Longrightarrow> i < length xs \<Longrightarrow> json (xs ! i)"
  by (induction xs arbitrary: i) (auto simp: nth_Cons split: nat.splits)

lemma json_field: "json v \<Longrightarrow> json (field v k)"
  by (cases v) (auto simp: json_map_of json_nth split: option.splits)

text \<open>A read of a key that the prototypes do not hold finds the field of the
  value.\<close>

lemma get_prop_field:
  assumes "not_inherited E k" and "json v" and "typeof v = ''object''"
  shows "get_prop E v k = field v k"
proof (cases v)
  case (JObj kvs)
  with assms(1) show ?thesis
    by (auto simp: get_prop_def find_slot_def not_inherited_def split: option.splits)
next
  case (JArr xs)
  with assms(1) show ?thesis
    by (auto simp: get_prop_def find_slot_def not_inherited_def split: option.splits)
qed (use assms in auto)

lemma validate_plain:
  "plain_schema s \<Longrightarrow> \<forall>k \<in> set (schema_keys s). not_inherited E k \<Longrightarrow> json v \<Longrightarrow>
     validateField E v s = Inr (matches v s)"
  "plain_entries es \<Longrightarrow> \<forall>k \<in> set (entries_keys es). not_inherited E k \<Longrightarrow> json v \<Longrightarrow>
     typeof v = ''object'' \<Longrightarrow>
     every_entry E v es = Inr (\<forall>(k, sub) \<in> set es. matches (field v k) sub)"
proof (induction E v s and E v es rule: validateField_every_entry.induct)
  case (1 E v s)
  then show ?case by (simp add: matches_JStr)
next
  case (2 E v entries)
  then show ?case by (auto simp: matches_JObj is_object_iff)
next
  case (11 E v k t rest)
  from 11(4,5,6) have g: "get_prop E v k = field v k" by (simp add: get_prop_field)
  from 11(5) have j: "json (field v k)" by (rule json_field)
  from j g have j': "json (get_prop E v k)" by simp
  from 11(1) [OF _ _ j'] 11(3,4) g
  have a: "validateField E (get_prop E v k) t = Inr (matches (field v k) t)" by simp
  show ?case
  proof (cases "matches (field v k) t")
    case True
    with 11(2) [OF a] 11(3,4,5,6) a show ?thesis by simp
  next
    case False
    with a show ?thesis by simp
  qed
qed simp_all

text \<open>
  Where validation agrees with the specification: for a schema made of type-name
  strings and object nodes, none of whose keys names a property that the prototypes
  of objects and arrays hold, \<open>validateField\<close> returns whether the data matches the
  schema in the words of the specification, and the validate operation returns
  \<open>{isValid: true}\<close> exactly when it does (and \<open>{isValid: false}\<close> otherwise, the schema
  being true in a condition). The two examples of the specification give
  \<open>{isValid: true}\<close> and \<open>{isValid: false}\<close>.
\<close>

theorem validate_matches_schema:
  assumes "plain_schema schema" and "\<forall>k \<in> set (schema_keys schema). not_inherited E k"
    and "json data"
  shows "validateField E data schema = Inr (matches data schema)
    \<and> (jsonProcess_execute E ''validate'' data schema ts = Returns (JObj [(''isValid'', JBool True)])
        \<longleftrightarrow> matches data schema)
    \<and> (truthy schema \<longrightarrow>
         jsonProcess_execute E ''validate'' data schema ts
           = Returns (JObj [(''isValid'', JBool (matches data schema))]))"
proof -
  have v: "validateField E data schema = Inr (matches data schema)"
    by (rule validate_plain(1) [OF assms])
  have falsy: "\<not> matches data schema" if "\<not> truthy schema"
  proof -
    from assms(1) that have "schema = JStr []" by (cases schema) auto
    moreover have "typeof data \<noteq> []" by (cases data) auto
    ultimately show ?thesis by (simp add: matches_JStr)
  qed
  have e1: "jsonProcess_execute E ''validate'' data schema ts = Returns (JObj [(''isValid'', JBool True)])
        \<longleftrightarrow> matches data schema"
    using v falsy by (auto simp: jsonProcess_execute_def jsonProcess_run_def)
  have e2: "jsonProcess_execute E ''validate'' data schema ts
           = Returns (JObj [(''isValid'', JBool (matches data schema))])" if "truthy schema"
    using v that by (simp add: jsonProcess_execute_def jsonProcess_run_def)
  from v e1 e2 show ?thesis by simp
qed

theorem validate_examples:
  "jsonProcess_execute E ''validate''
      (JObj [(''name'', JStr ''John''), (''age'', JNum (Finite 30))])
      (JObj [(''name'', JStr ''string''), (''age'', JStr ''number'')]) None
    = Returns (JObj [(''isValid'', JBool True)])
   \<and> jsonProcess_execute E ''validate''
      (JObj [(''name'', JStr ''John''), (''age'', JStr ''30'')])
      (JObj [(''name'', JStr ''string''), (''age'', JStr ''number'')]) None
    = Returns (JObj [(''isValid'', JBool False)])"
  by (simp add: jsonProcess_execute_def jsonProcess_run_def)

text \<open>
  C6. Validation does not return whether the data matches the schema: the read
  \<open>value[key]\<close> finds what the value inherits from its prototype, so a key that the
  schema declares is checked against an inherited property where the data have no
  such field. The empty object has no field \<open>constructor\<close>, and does not match the
  schema \<open>{"constructor": "function"}\<close>; the validate operation returns
  \<open>{isValid: true}\<close>. It has no field \<open>__proto__\<close> either, and the schema
  \<open>{"__proto__": {}}\<close> requires a sub-object there; the validate operation returns
  \<open>{isValid: true}\<close>. And it matches the schema \<open>{"toString": "undefined"}\<close>, for which
  the validate operation returns \<open>{isValid: false}\<close>.
\<close>

theorem validate_reads_inherited_properties:
  "jsonProcess_execute example_engine ''validate'' (JObj [])
      (JObj [(''constructor'', JStr ''function'')]) None
    = Returns (JObj [(''isValid'', JBool True)])
   \<and> \<not> matches (JObj []) (JObj [(''constructor'', JStr ''function'')])
   \<and> jsonProcess_execute example_engine ''validate'' (JObj [])
      (JObj [(''__proto__'', JObj [])]) None
    = Returns (JObj [(''isValid'', JBool True)])
   \<and> \<not> matches (JObj []) (JObj [(''__proto__'', JObj [])])
   \<and> jsonProcess_execute example_engine ''validate'' (JObj [])
      (JObj [(''toString'', JStr ''undefined'')]) None
    = Returns (JObj [(''isValid'', JBool False)])
   \<and> matches (JObj []) (JObj [(''toString'', JStr ''undefined'')])"
  by (simp add: jsonProcess_execute_def jsonProcess_run_def get_prop_def find_slot_def
      getPrototypeOf_def example_engine_def pristine_Object_prototype_def
      matches_JStr matches_JObj is_object_def)

text \<open>
  C10, as the code has it. A schema node that is a number, a boolean or an array
  validates against every data value, so the validate operation with an array as
  schema (the empty array among them) returns \<open>{isValid: true}\<close> whatever the data is:
  the positions of an array in a schema are never checked.
\<close>

theorem array_schema_validates_everything:
  "validateField E v (JNum n) = Inr True
   \<and> validateField E v (JBool b) = Inr True
   \<and> validateField E v (JArr xs) = Inr True
   \<and> jsonProcess_execute E ''validate'' data (JArr xs) ts = Returns (JObj [(''isValid'', JBool True)])
   \<and> jsonProcess_execute E ''validate'' data (JArr []) ts = Returns (JObj [(''isValid'', JBool True)])"
  by (simp add: jsonProcess_execute_def jsonProcess_run_def)

text \<open>
  A \<open>null\<close> in the schema is neither a string nor an object of JSON, and it does not
  validate against every value: \<open>typeof null\<close> is \<open>"object"\<close>, so it takes the object
  branch, which rejects a value that is no object and throws on one that is.
\<close>

theorem null_schema_node_does_not_validate:
  "validateField example_engine (JNum (Finite 1)) JNull = Inr False
   \<and> jsonProcess_execute example_engine ''validate'' (JObj [(''a'', JNum (Finite 1))]) (JObj [(''a'', JNull)]) None
       = Returns (JObj [(''isValid'', JBool False)])
   \<and> jsonProcess_execute example_engine ''validate'' (JObj [(''a'', JObj [])]) (JObj [(''a'', JNull)]) None
       = Throws TypeError"
  by (simp add: jsonProcess_execute_def jsonProcess_run_def)

subsection \<open>The store\<close>
































lemma deep_clone_other:
  assumes "fst (deep_clone h data) \<noteq> Returns copy" and "deep_clone h data = (r, h1)"
    and "\<forall>c. r \<noteq> Returns c"
  shows "h1 = h"
  using assms
  by (auto simp: deep_clone_def split: if_splits option.splits prod.splits)










subsection \<open>The loop of the transformations\<close>

lemma apply_transformations_append:
  "apply_transformations h result (ts @ ts') =
     (case apply_transformations h result ts of
        (Returns u, h') \<Rightarrow> apply_transformations h' result ts'
      | other \<Rightarrow> other)"
proof (induction ts arbitrary: h)
  case Nil
  then show ?case by simp
next
  case (Cons t ts)
  obtain r h1 where s: "apply_transformation h result t = (r, h1)"
    by (cases "apply_transformation h result t")
  with Cons show ?case by (cases r) simp_all
qed

lemma navigate_continue:
  "navigate h c ps = Returns c' \<Longrightarrow> h_truthy c' \<Longrightarrow> navigate h c (ps @ qs) = navigate h c' qs"
proof (induction ps arbitrary: c)
  case Nil
  then show ?case by simp
next
  case (Cons p ps)
  from Cons.prems(1) obtain nxt where g: "h_get h c p = Returns nxt"
    by (cases "h_get h c p") auto
  show ?case
  proof (cases "h_truthy nxt")
    case True
    with Cons g show ?thesis by simp
  next
    case False
    with Cons.prems g show ?thesis by simp
  qed
qed

lemma map_of_insert_index: "map_of fs k = None \<Longrightarrow> map_of (insert_index i k v fs) = (map_of fs)(k \<mapsto> v)"
  by (induction fs) (auto split: option.splits if_splits)

lemma map_of_replace_field:
  "map_of fs k \<noteq> None \<Longrightarrow> map_of (replace_field k v fs) = (map_of fs)(k \<mapsto> v)"
  by (induction fs) (auto simp: fun_upd_twist)

lemma map_of_append_new:
  "map_of fs k = None \<Longrightarrow> map_of (fs @ [(k, v)]) = (map_of fs)(k \<mapsto> v)"
  by (induction fs) (auto simp: fun_upd_twist split: if_splits)

lemma map_of_put_field: "map_of (put_field k v fs) = (map_of fs)(k \<mapsto> v)"
proof (cases "map_of fs k")
  case None
  then show ?thesis
    by (cases "array_index k")
      (simp_all add: put_field_def insert_field_def map_of_insert_index map_of_append_new
        del: map_of_append)
next
  case (Some y)
  then show ?thesis by (simp add: put_field_def map_of_replace_field)
qed

lemma map_of_remove_field: "map_of (remove_field k fs) = (map_of fs)(k := None)"
  by (induction fs) (auto simp: remove_field_def)

lemma keys_replace_field: "map fst (replace_field k v fs) = map fst fs"
  by (induction fs) auto

text \<open>
  What the loop does. The transformations are applied in the order of the list,
  each one on the store that the ones before it left. One transformation follows the
  parts of its path but the last by successive property reads from the result; when
  this reaches an object (the parent), \<open>add\<close> sets the last part of the path to the
  value, \<open>delete\<close> removes it, and \<open>rename\<close> (given a new path that is not empty) sets the
  key \<open>newPath\<close> of the parent to what a read of the last part gives and removes the last
  part. (The one key that cannot be set in this way is \<open>__proto__\<close>, as long as the
  object has no own property of this name and inherits the accessor.) A key that is
  set keeps its place if the object has it; a new key that is no array index goes to
  the end. When a read on the way finds nothing, neither on the object nor on its
  prototypes, the transformation leaves the store as it is and raises no error, and
  the rest of the list is applied as if it were not there.
\<close>

theorem transformations_apply_in_order:
  "apply_transformations h result [] = (Returns (), h)
   \<and> apply_transformations h result (t # ts) =
       (case apply_transformation h result t of
          (Returns u, h') \<Rightarrow> apply_transformations h' result ts
        | other \<Rightarrow> other)
   \<and> apply_transformations h result (ts @ ts') =
       (case apply_transformations h result ts of
          (Returns u, h') \<Rightarrow> apply_transformations h' result ts'
        | other \<Rightarrow> other)
   \<and> (navigate h result (butlast (split_on CHR ''.'' (path t))) = Returns (HRef p)
        \<and> p < length h \<and> h ! p = HObject fs \<longrightarrow>
        (operation t = ''add''
           \<and> \<not> (map_of fs (last (split_on CHR ''.'' (path t))) = None
                \<and> h_inherited h (HRef p) (last (split_on CHR ''.'' (path t))) = Some Proto_accessor)
           \<longrightarrow>
           apply_transformation h result t
             = (Returns (), h[p := HObject (put_field (last (split_on CHR ''.'' (path t))) (value' t) fs)]))
        \<and> (operation t = ''delete'' \<longrightarrow>
           apply_transformation h result t
             = (Returns (), h[p := HObject (remove_field (last (split_on CHR ''.'' (path t))) fs)]))
        \<and> (operation t = ''rename'' \<and> newPath t = Some np \<and> np \<noteq> []
           \<and> h_get h (HRef p) (last (split_on CHR ''.'' (path t))) = Returns v
           \<and> \<not> (map_of fs np = None \<and> h_inherited h (HRef p) np = Some Proto_accessor)
           \<longrightarrow>
           apply_transformation h result t
             = (Returns (),
                h[p := HObject (remove_field (last (split_on CHR ''.'' (path t)))
                         (put_field np v fs))])))
   \<and> map_of (put_field k v fs) = (map_of fs)(k \<mapsto> v)
   \<and> map_of (remove_field k fs) = (map_of fs)(k := None)
   \<and> (map_of fs k \<noteq> None \<longrightarrow> map fst (put_field k v fs) = map fst fs)
   \<and> (map_of fs k = None \<and> array_index k = None \<longrightarrow> put_field k v fs = fs @ [(k, v)])
   \<and> (butlast (split_on CHR ''.'' (path t)) = ps @ k # rest
        \<and> navigate h result ps = Returns c \<and> h_truthy c \<and> modelled_receiver h c
        \<and> h_find h c k = None \<longrightarrow>
        apply_transformation h result t = (Returns (), h)
        \<and> apply_transformations h result (t # ts) = apply_transformations h result ts)
   \<and> jsonProcess_execute example_engine ''transform''
        (JObj [(''a'', JObj [(''b'', JNum (Finite 1))])]) JUndefined
        (Some [\<lparr>operation = ''add'', path = ''a.c'', value' = JObj [(''y'', JNum (Finite 1))],
                 newPath = None\<rparr>,
               \<lparr>operation = ''delete'', path = ''a.c.y'', value' = JUndefined, newPath = None\<rparr>,
               \<lparr>operation = ''add'', path = ''x.y.z'', value' = JNum (Finite 2), newPath = None\<rparr>,
               \<lparr>operation = ''rename'', path = ''a.b'', value' = JUndefined, newPath = Some ''q''\<rparr>,
               \<lparr>operation = ''add'', path = ''a.1'', value' = JNull, newPath = None\<rparr>])
       = Returns (JObj [(''result'',
            JObj [(''a'', JObj [(''1'', JNull), (''c'', JObj []), (''q'', JNum (Finite 1))])])])"
proof -
  let ?parts = "split_on CHR ''.'' (path t)"
  have add: "apply_transformation h result t
             = (Returns (), h[p := HObject (put_field (last ?parts) (value' t) fs)])"
    if "navigate h result (butlast ?parts) = Returns (HRef p)" "p < length h" "h ! p = HObject fs"
      "operation t = ''add''"
      "\<not> (map_of fs (last ?parts) = None \<and> h_inherited h (HRef p) (last ?parts) = Some Proto_accessor)"
    using that by (auto simp: apply_transformation_def apply_at_def Let_def h_set_def)
  have del: "apply_transformation h result t
             = (Returns (), h[p := HObject (remove_field (last ?parts) fs)])"
    if "navigate h result (butlast ?parts) = Returns (HRef p)" "p < length h" "h ! p = HObject fs"
      "operation t = ''delete''"
    using that by (simp add: apply_transformation_def apply_at_def Let_def h_delete_def)
  have ren: "apply_transformation h result t
             = (Returns (), h[p := HObject (remove_field (last ?parts) (put_field np v fs))])"
    if "navigate h result (butlast ?parts) = Returns (HRef p)" "p < length h" "h ! p = HObject fs"
      "operation t = ''rename''" "newPath t = Some np" "np \<noteq> []"
      "h_get h (HRef p) (last ?parts) = Returns v"
      "\<not> (map_of fs np = None \<and> h_inherited h (HRef p) np = Some Proto_accessor)"
    using that by (auto simp: apply_transformation_def apply_at_def Let_def h_set_def h_delete_def)
  have skip: "apply_transformation h result t = (Returns (), h)
        \<and> apply_transformations h result (t # ts) = apply_transformations h result ts"
    if b: "butlast ?parts = ps @ k # rest" and n: "navigate h result ps = Returns c"
      and c: "h_truthy c" "modelled_receiver h c" and f: "h_find h c k = None"
  proof -
    from c have "c \<noteq> HUndefined" "c \<noteq> HNull" by auto
    with c(2) f have g: "h_get h c k = Returns HUndefined" by (simp add: h_get_def)
    from navigate_continue [OF n c(1), of "k # rest"] g b
    have "navigate h result (butlast ?parts) = Returns HUndefined" by simp
    then have "apply_transformation h result t = (Returns (), h)"
      by (simp add: apply_transformation_def Let_def)
    then show ?thesis by simp
  qed
  have new: "put_field k v fs = fs @ [(k, v)]" if "map_of fs k = None" "array_index k = None"
    using that by (simp add: put_field_def insert_field_def)
  have old: "map fst (put_field k v fs) = map fst fs" if "map_of fs k \<noteq> None"
    using that by (auto simp: put_field_def keys_replace_field)
  have ex: "jsonProcess_execute example_engine ''transform''
        (JObj [(''a'', JObj [(''b'', JNum (Finite 1))])]) JUndefined
        (Some [\<lparr>operation = ''add'', path = ''a.c'', value' = JObj [(''y'', JNum (Finite 1))],
                 newPath = None\<rparr>,
               \<lparr>operation = ''delete'', path = ''a.c.y'', value' = JUndefined, newPath = None\<rparr>,
               \<lparr>operation = ''add'', path = ''x.y.z'', value' = JNum (Finite 2), newPath = None\<rparr>,
               \<lparr>operation = ''rename'', path = ''a.b'', value' = JUndefined, newPath = Some ''q''\<rparr>,
               \<lparr>operation = ''add'', path = ''a.1'', value' = JNull, newPath = None\<rparr>])
       = Returns (JObj [(''result'',
            JObj [(''a'', JObj [(''1'', JNull), (''c'', JObj []), (''q'', JNum (Finite 1))])])])"
    by (simp add: jsonProcess_execute_def jsonProcess_run_def example_store transform_def
        deep_clone_def toJSON_callable_def
        proto_entries_def pristine_Object_prototype_def apply_transformation_def apply_at_def
        h_get_def h_find_def h_inherited_def h_set_def h_delete_def put_field_def
        insert_field_def array_index_def index_of_key_def digit_of_def remove_field_def)
  show ?thesis
  proof (intro conjI)
    show "apply_transformations h result (ts @ ts') =
       (case apply_transformations h result ts of
          (Returns u, h') \<Rightarrow> apply_transformations h' result ts'
        | other \<Rightarrow> other)"
      by (rule apply_transformations_append)
    show "map_of (put_field k v fs) = (map_of fs)(k \<mapsto> v)" by (rule map_of_put_field)
    show "map_of (remove_field k fs) = (map_of fs)(k := None)" by (rule map_of_remove_field)
    show "jsonProcess_execute example_engine ''transform''
        (JObj [(''a'', JObj [(''b'', JNum (Finite 1))])]) JUndefined
        (Some [\<lparr>operation = ''add'', path = ''a.c'', value' = JObj [(''y'', JNum (Finite 1))],
                 newPath = None\<rparr>,
               \<lparr>operation = ''delete'', path = ''a.c.y'', value' = JUndefined, newPath = None\<rparr>,
               \<lparr>operation = ''add'', path = ''x.y.z'', value' = JNum (Finite 2), newPath = None\<rparr>,
               \<lparr>operation = ''rename'', path = ''a.b'', value' = JUndefined, newPath = Some ''q''\<rparr>,
               \<lparr>operation = ''add'', path = ''a.1'', value' = JNull, newPath = None\<rparr>])
       = Returns (JObj [(''result'',
            JObj [(''a'', JObj [(''1'', JNull), (''c'', JObj []), (''q'', JNum (Finite 1))])])])"
      by (rule ex)
    show "apply_transformations h result [] = (Returns (), h)" by simp
    show "apply_transformations h result (t # ts) =
       (case apply_transformation h result t of
          (Returns u, h') \<Rightarrow> apply_transformations h' result ts
        | other \<Rightarrow> other)"
      by simp
    show "map_of fs k \<noteq> None \<longrightarrow> map fst (put_field k v fs) = map fst fs"
      by (intro impI, rule old)
    show "map_of fs k = None \<and> array_index k = None \<longrightarrow> put_field k v fs = fs @ [(k, v)]"
      by (intro impI, elim conjE, rule new)
    show "butlast ?parts = ps @ k # rest
        \<and> navigate h result ps = Returns c \<and> h_truthy c \<and> modelled_receiver h c
        \<and> h_find h c k = None \<longrightarrow>
        apply_transformation h result t = (Returns (), h)
        \<and> apply_transformations h result (t # ts) = apply_transformations h result ts"
      by (intro impI, elim conjE, rule skip)
    show "navigate h result (butlast ?parts) = Returns (HRef p)
        \<and> p < length h \<and> h ! p = HObject fs \<longrightarrow>
        (operation t = ''add''
           \<and> \<not> (map_of fs (last ?parts) = None
                \<and> h_inherited h (HRef p) (last ?parts) = Some Proto_accessor)
           \<longrightarrow>
           apply_transformation h result t
             = (Returns (), h[p := HObject (put_field (last ?parts) (value' t) fs)]))
        \<and> (operation t = ''delete'' \<longrightarrow>
           apply_transformation h result t
             = (Returns (), h[p := HObject (remove_field (last ?parts) fs)]))
        \<and> (operation t = ''rename'' \<and> newPath t = Some np \<and> np \<noteq> []
           \<and> h_get h (HRef p) (last ?parts) = Returns v
           \<and> \<not> (map_of fs np = None \<and> h_inherited h (HRef p) np = Some Proto_accessor)
           \<longrightarrow>
           apply_transformation h result t
             = (Returns (),
                h[p := HObject (remove_field (last ?parts) (put_field np v fs))]))"
    proof (intro impI conjI; elim conjE)
      assume "navigate h result (butlast ?parts) = Returns (HRef p)" "p < length h"
        "h ! p = HObject fs" "operation t = ''add''"
        "\<not> (map_of fs (last ?parts) = None
            \<and> h_inherited h (HRef p) (last ?parts) = Some Proto_accessor)"
      then show "apply_transformation h result t
             = (Returns (), h[p := HObject (put_field (last ?parts) (value' t) fs)])"
        by (rule add)
    next
      assume "navigate h result (butlast ?parts) = Returns (HRef p)" "p < length h"
        "h ! p = HObject fs" "operation t = ''delete''"
      then show "apply_transformation h result t
             = (Returns (), h[p := HObject (remove_field (last ?parts) fs)])"
        by (rule del)
    next
      assume "navigate h result (butlast ?parts) = Returns (HRef p)" "p < length h"
        "h ! p = HObject fs" "operation t = ''rename''" "newPath t = Some np" "np \<noteq> []"
        "h_get h (HRef p) (last ?parts) = Returns v"
        "\<not> (map_of fs np = None \<and> h_inherited h (HRef p) np = Some Proto_accessor)"
      then show "apply_transformation h result t
             = (Returns (),
                h[p := HObject (remove_field (last ?parts) (put_field np v fs))])"
        by (rule ren)
    qed
  qed
qed

lemma flag_run:
  "jsonProcess_run example_engine ''transform'' (JObj []) JUndefined (Some add_flag_to_prototype)
   = (Returns (JObj [(''result'', JObj [])]),
      [HProto (map (\<lambda>(k, s). (k, case s of Value (JFun f) \<Rightarrow> Value (HFun f) | _ \<Rightarrow> Proto_accessor))
                pristine_Object_prototype @ [(''polluted'', Value (HBool True))]),
      HProto [], HProto [], HProto [], HProto [], HProto [], HObject [], HObject []])"
  by (simp add: jsonProcess_run_def example_store add_flag_to_prototype_def transform_def
      deep_clone_def toJSON_callable_def proto_entries_def pristine_Object_prototype_def
      apply_transformation_def apply_at_def h_get_def h_find_def h_inherited_def
      h_set_def put_field_def insert_field_def array_index_def index_of_key_def digit_of_def
      builtin_at_def Let_def)

lemma flagged_Object_prototype:
  "prototype_props flagged_engine Object_prototype
     = pristine_Object_prototype @ [(''polluted'', Value (JBool True))]"
  by (simp add: flagged_engine_def engine_after_def flag_run realm_props_def
      proto_entries_def pristine_Object_prototype_def)

text \<open>
  C8. A transformation whose intermediate path segment is absent from the data
  is not always skipped. The data \<open>{}\<close> have no key \<open>__proto__\<close>, but the read
  \<open>current["__proto__"]\<close> finds the accessor that every object inherits and returns
  \<open>Object.prototype\<close>; the transformation that adds \<open>true\<close> under the path
  \<open>__proto__.polluted\<close> follows it and sets the property on \<open>Object.prototype\<close>. The
  result of the request is \<open>{}\<close>, as if the transformation had been skipped, but the
  store is not as it was: every object of every later request inherits \<open>polluted\<close>, so
  that the data \<open>{}\<close>, which did not validate against the schema
  \<open>{"polluted": "boolean"}\<close> before, validates against it afterwards.
\<close>

theorem absent_segment_reaches_the_prototype:
  "h_own (realm_store example_engine @ [HObject []]) (HRef 6) ''__proto__'' = None
   \<and> apply_transformation (realm_store example_engine @ [HObject []]) (HRef 6)
        \<lparr>operation = ''add'', path = ''__proto__.polluted'', value' = HBool True, newPath = None\<rparr>
       = (Returns (),
          HProto (map (\<lambda>(k, s). (k, case s of Value (JFun f) \<Rightarrow> Value (HFun f) | _ \<Rightarrow> Proto_accessor))
                    pristine_Object_prototype @ [(''polluted'', Value (HBool True))])
            # [HProto [], HProto [], HProto [], HProto [], HProto [], HObject []])
   \<and> apply_transformation (realm_store example_engine @ [HObject []]) (HRef 6)
        \<lparr>operation = ''add'', path = ''__proto__.polluted'', value' = HBool True, newPath = None\<rparr>
       \<noteq> (Returns (), realm_store example_engine @ [HObject []])
   \<and> jsonProcess_execute example_engine ''transform'' (JObj []) JUndefined
        (Some add_flag_to_prototype)
       = Returns (JObj [(''result'', JObj [])])
   \<and> get_prop example_engine (JObj []) ''polluted'' = JUndefined
   \<and> get_prop flagged_engine (JObj []) ''polluted'' = JBool True
   \<and> jsonProcess_execute example_engine ''validate'' (JObj [])
        (JObj [(''polluted'', JStr ''boolean'')]) None
       = Returns (JObj [(''isValid'', JBool False)])
   \<and> jsonProcess_execute flagged_engine ''validate'' (JObj [])
        (JObj [(''polluted'', JStr ''boolean'')]) None
       = Returns (JObj [(''isValid'', JBool True)])"
proof -
  have g0: "get_prop example_engine (JObj []) ''polluted'' = JUndefined"
    by (simp add: get_prop_def find_slot_def example_engine_def pristine_Object_prototype_def)
  have g1: "get_prop flagged_engine (JObj []) ''polluted'' = JBool True"
    by (simp add: get_prop_def find_slot_def flagged_Object_prototype
        pristine_Object_prototype_def)
  have a: "apply_transformation (realm_store example_engine @ [HObject []]) (HRef 6)
        \<lparr>operation = ''add'', path = ''__proto__.polluted'', value' = HBool True, newPath = None\<rparr>
       = (Returns (),
          HProto (map (\<lambda>(k, s). (k, case s of Value (JFun f) \<Rightarrow> Value (HFun f) | _ \<Rightarrow> Proto_accessor))
                    pristine_Object_prototype @ [(''polluted'', Value (HBool True))])
            # [HProto [], HProto [], HProto [], HProto [], HProto [], HObject []])"
    by (simp add: example_store proto_entries_def pristine_Object_prototype_def
        apply_transformation_def apply_at_def h_get_def h_find_def h_inherited_def
        h_set_def put_field_def insert_field_def array_index_def index_of_key_def digit_of_def
        Let_def)
  have n: "(HProto (map (\<lambda>(k, s). (k, case s of Value (JFun f) \<Rightarrow> Value (HFun f) | _ \<Rightarrow> Proto_accessor))
                    pristine_Object_prototype @ [(''polluted'', Value (HBool True))])
            # [HProto [], HProto [], HProto [], HProto [], HProto [], HObject []])
          \<noteq> realm_store example_engine @ [HObject []]"
    by (simp add: example_store)
  have o: "h_own (realm_store example_engine @ [HObject []]) (HRef 6) ''__proto__'' = None"
    by (simp add: example_store)
  have ne: "apply_transformation (realm_store example_engine @ [HObject []]) (HRef 6)
        \<lparr>operation = ''add'', path = ''__proto__.polluted'', value' = HBool True, newPath = None\<rparr>
       \<noteq> (Returns (), realm_store example_engine @ [HObject []])"
    unfolding a using n by simp
  have e: "jsonProcess_execute example_engine ''transform'' (JObj []) JUndefined
        (Some add_flag_to_prototype)
       = Returns (JObj [(''result'', JObj [])])"
    by (simp add: jsonProcess_execute_def flag_run)
  have v0: "jsonProcess_execute example_engine ''validate'' (JObj [])
        (JObj [(''polluted'', JStr ''boolean'')]) None
       = Returns (JObj [(''isValid'', JBool False)])"
    using g0 by (simp add: jsonProcess_execute_def jsonProcess_run_def)
  have v1: "jsonProcess_execute flagged_engine ''validate'' (JObj [])
        (JObj [(''polluted'', JStr ''boolean'')]) None
       = Returns (JObj [(''isValid'', JBool True)])"
    using g1 by (simp add: jsonProcess_execute_def jsonProcess_run_def)
  show ?thesis by (intro conjI) (rule o a ne e g0 g1 v0 v1)+
qed


end
